theory Spec2Isabelle
  imports Main "HOL-Library.Word"
begin

unbundle bit_operations_syntax

section \<open>Common runtime model\<close>

text \<open>
  The scripts compute with JavaScript \<open>BigInt\<close> values, which are unbounded integers:
  they are modelled as \<open>int\<close>. Every \<open>throw\<close> and every \<open>process.exit(1)\<close> of the
  source is a value of the type \<open>error\<close>; a computation that may raise returns
  \<open>error + 'a\<close>, with \<open>Inl\<close> for the raised error.
\<close>

datatype error =
    RangeError        \<comment> \<open>BigInt division by zero; Buffer read out of range\<close>
  | TypeError         \<comment> \<open>\<open>BigInt(undefined)\<close>\<close>
  | MalformedField    \<comment> \<open>\<open>Error("dao field must be 32 bytes ...")\<close> of \<open>parseDao\<close>\<close>
  | InvalidCellShape  \<comment> \<open>the two \<open>Error\<close>s of \<open>parsePrepareBlockNumberHex\<close>\<close>
  | BadEpoch          \<comment> \<open>\<open>process.exit(1)\<close> on a bad epoch field in the header scan\<close>
  | BadRange          \<comment> \<open>\<open>Error("START must be >= 1 ...")\<close>, \<open>Error("END ... > tip ...")\<close>\<close>

text \<open>
  \<open>a / b\<close> and \<open>a % b\<close> on BigInt: the quotient is truncated towards zero, the
  remainder takes the sign of the dividend, and a zero divisor raises
  \<open>RangeError: Division by zero\<close>.
\<close>

definition bigint_div :: "int \<Rightarrow> int \<Rightarrow> error + int" where
  "bigint_div a b = (if b = 0 then Inl RangeError else Inr (sgn a * sgn b * (\<bar>a\<bar> div \<bar>b\<bar>)))"

definition bigint_rem :: "int \<Rightarrow> int \<Rightarrow> error + int" where
  "bigint_rem a b = (if b = 0 then Inl RangeError else Inr (sgn a * (\<bar>a\<bar> mod \<bar>b\<bar>)))"

section \<open>Header scan of the miners' secondary issuance\<close>

subsection \<open>Epoch field and per-block secondary issuance\<close>

text \<open>
  \<^verbatim>\<open>const SECONDARY_EPOCH_REWARD = 61_369_863_013_698n;\<close>
\<close>

definition SECONDARY_EPOCH_REWARD :: int where
  "SECONDARY_EPOCH_REWARD = 61369863013698"

text \<open>
  \<^verbatim>\<open>
  function parseEpochPacked(epochHex) {
    const e = BigInt(epochHex);
    const length = Number(e >> 40n);                 // high 24 bits
    const index  = Number((e >> 24n) & 0xFFFFn);     // middle 16 bits
    const number = Number(e & 0xFFFFFFn);            // low 24 bits
    return { number, index, length };
  }
  \<close>
  The argument of the model is the BigInt \<open>e\<close> that the hexadecimal quantity denotes.
  \<open>>>\<close> on BigInt is the arithmetic shift (\<open>drop_bit\<close> on \<open>int\<close>) and \<open>&\<close> the
  two's complement conjunction. \<open>Number\<close> is exact on the values occurring for a 64-bit
  field (they are below \<open>2 ^ 24\<close>).
\<close>

record epoch =
  ep_number :: int
  ep_index :: int
  ep_length :: int

definition parseEpochPacked :: "int \<Rightarrow> epoch" where
  "parseEpochPacked e =
     \<lparr> ep_number = e AND 0xFFFFFF,
       ep_index = drop_bit 24 e AND 0xFFFF,
       ep_length = drop_bit 40 e \<rparr>"

text \<open>
  The packing the source's comments give for the field:
  \<^verbatim>\<open>epoch = (length << 40) | (index << 24) | number\<close>
\<close>

definition epochPacked :: "nat \<Rightarrow> nat \<Rightarrow> nat \<Rightarrow> int" where
  "epochPacked number index len = push_bit 40 (int len) OR push_bit 24 (int index) OR int number"

text \<open>
  \<^verbatim>\<open>
  function perBlockSecondary(epochLength, epochIndex) {
    const L = BigInt(epochLength);
    if (L === 0n) throw new RangeError("Division by zero (epoch.length=0)");
    const q = SECONDARY_EPOCH_REWARD / L;
    const m = SECONDARY_EPOCH_REWARD % L;
    const idx = BigInt(epochIndex);
    return idx < m ? (q + 1n) : q;
  }
  \<close>
\<close>

definition perBlockSecondary :: "int \<Rightarrow> int \<Rightarrow> error + int" where
  "perBlockSecondary epochLength epochIndex =
     (if epochLength = 0 then Inl RangeError
      else case bigint_div SECONDARY_EPOCH_REWARD epochLength of
             Inl err \<Rightarrow> Inl err
           | Inr q \<Rightarrow>
               (case bigint_rem SECONDARY_EPOCH_REWARD epochLength of
                  Inl err \<Rightarrow> Inl err
                | Inr m \<Rightarrow> Inr (if epochIndex < m then q + 1 else q)))"

section \<open>Occupied capacity of a cell (ckb_capacity.js)\<close>

text \<open>
  A script as the node's JSON gives it; \<open>args\<close> is a hexadecimal string. An absent type
  script is \<open>None\<close>.
\<close>

record script =
  code_hash :: string
  hash_type :: string
  args :: string

record cell_output =
  capacity :: int
  lock :: script
  type_script :: "script option"

text \<open>
  \<^verbatim>\<open>
  export function hexBytesLen(hex) {
    if (!hex || hex === '0x') return 0;
    const s = hex.startsWith('0x') ? hex.slice(2) : hex;
    return Math.floor(s.length / 2);
  }
  \<close>
  The empty string is falsy.
\<close>

definition strip0x :: "string \<Rightarrow> string" where
  "strip0x hex = (if take 2 hex = ''0x'' then drop 2 hex else hex)"

definition hexBytesLen :: "string \<Rightarrow> nat" where
  "hexBytesLen hex = (if hex = [] \<or> hex = ''0x'' then 0 else length (strip0x hex) div 2)"

text \<open>
  \<^verbatim>\<open>
  export function scriptBytesForOccupied(script) {
    if (!script) return 0;
    const argsLen = hexBytesLen(script.args || '0x');
    return 32 + 1 + argsLen;
  }
  export function occupiedBytes(output, outputDataHex) {
    const dataLen = hexBytesLen(outputDataHex);
    const lockBytes = scriptBytesForOccupied(output.lock);
    const typeBytes = output.type ? scriptBytesForOccupied(output.type) : 0;
    // 8 bytes for capacity field
    return 8 + lockBytes + typeBytes + dataLen;
  }
  export function occupiedCapacity(output, outputDataHex) {
    return BigInt(occupiedBytes(output, outputDataHex)) * SHANNONS_PER_CKB;
  }
  export function freeCapacity(output, outputDataHex) {
    const cap = BigInt(output.capacity);
    return cap - occupiedCapacity(output, outputDataHex);
  }
  \<close>
\<close>

definition SHANNONS_PER_CKB :: int where
  "SHANNONS_PER_CKB = 100000000"

definition scriptBytesForOccupied :: "script option \<Rightarrow> nat" where
  "scriptBytesForOccupied s =
     (case s of
        None \<Rightarrow> 0
      | Some sc \<Rightarrow> 32 + 1 + hexBytesLen (if args sc = [] then ''0x'' else args sc))"

definition occupiedBytes :: "cell_output \<Rightarrow> string \<Rightarrow> nat" where
  "occupiedBytes output outputDataHex =
     (let dataLen = hexBytesLen outputDataHex;
          lockBytes = scriptBytesForOccupied (Some (lock output));
          typeBytes = (case type_script output of
                         Some t \<Rightarrow> scriptBytesForOccupied (Some t)
                       | None \<Rightarrow> 0)
      in 8 + lockBytes + typeBytes + dataLen)"

definition occupiedCapacity :: "cell_output \<Rightarrow> string \<Rightarrow> int" where
  "occupiedCapacity output outputDataHex = int (occupiedBytes output outputDataHex) * SHANNONS_PER_CKB"

definition freeCapacity :: "cell_output \<Rightarrow> string \<Rightarrow> int" where
  "freeCapacity output outputDataHex = capacity output - occupiedCapacity output outputDataHex"

text \<open>
  The occupied size as the specification words it: a present type script is charged one
  byte more than its \<open>32 + 1 + len(args)\<close>. It is compared with the source's
  \<open>occupiedBytes\<close> below and used nowhere else.
\<close>

definition spec_occupiedBytes :: "cell_output \<Rightarrow> string \<Rightarrow> nat" where
  "spec_occupiedBytes output outputDataHex =
     8 + (32 + 1 + hexBytesLen (args (lock output)))
       + (case type_script output of
            None \<Rightarrow> 0
          | Some t \<Rightarrow> 1 + (32 + 1 + hexBytesLen (args t)))
       + hexBytesLen outputDataHex"

section \<open>Header accounting (dao) field\<close>

subsection \<open>Hexadecimal strings and buffers\<close>

text \<open>
  \<open>Buffer.from(s, 'hex')\<close> of Node decodes two hexadecimal digits (of either case) per
  byte and stops at the first pair that is not two digits; a trailing single character
  is dropped. Bytes are \<open>8 word\<close>.
\<close>

definition hexDigit :: "char \<Rightarrow> nat option" where
  "hexDigit c =
     (let n = (of_char c :: nat) in
      if 48 \<le> n \<and> n \<le> 57 then Some (n - 48)
      else if 97 \<le> n \<and> n \<le> 102 then Some (n - 87)
      else if 65 \<le> n \<and> n \<le> 70 then Some (n - 55)
      else None)"

fun bufferFromHex :: "string \<Rightarrow> 8 word list" where
  "bufferFromHex (a # b # rest) =
     (case hexDigit a of
        None \<Rightarrow> []
      | Some x \<Rightarrow>
          (case hexDigit b of
             None \<Rightarrow> []
           | Some y \<Rightarrow> word_of_nat (16 * x + y) # bufferFromHex rest))"
| "bufferFromHex [a] = []"
| "bufferFromHex [] = []"

text \<open>A string of hexadecimal digits only.\<close>

definition isHex :: "string \<Rightarrow> bool" where
  "isHex h = list_all (\<lambda>c. hexDigit c \<noteq> None) h"

text \<open>The unsigned little-endian value of a byte sequence.\<close>

fun u64le :: "8 word list \<Rightarrow> int" where
  "u64le [] = 0"
| "u64le (b # bs) = uint b + 256 * u64le bs"

text \<open>
  \<open>buf.readBigUInt64LE(offset)\<close> of Node: the eight bytes from \<open>offset\<close> as an unsigned
  little-endian BigInt; \<open>RangeError\<close> (\<open>ERR_OUT_OF_RANGE\<close>) when the buffer ends before
  \<open>offset + 8\<close>.
\<close>

definition readBigUInt64LE :: "8 word list \<Rightarrow> nat \<Rightarrow> error + int" where
  "readBigUInt64LE buf offset =
     (if length buf < offset + 8 then Inl RangeError
      else Inr (u64le (take 8 (drop offset buf))))"

subsection \<open>The decoders of the header scan (C and U)\<close>

text \<open>
  \<^verbatim>\<open>
  function u64leFromHex16(hex16) {
    const buf = Buffer.from(hex16, "hex");
    let x = 0n;
    for (let i = 0; i < 8; i++) x |= BigInt(buf[i]) << (8n * BigInt(i));
    return x;
  }
  \<close>
  A buffer shorter than eight bytes has \<open>buf[i] === undefined\<close> at its first missing index,
  and \<open>BigInt(undefined)\<close> raises \<open>TypeError\<close>.
\<close>

definition u64leFromHex16 :: "string \<Rightarrow> error + int" where
  "u64leFromHex16 hex16 =
     (let buf = bufferFromHex hex16 in
      if length buf < 8 then Inl TypeError
      else Inr (fold (\<lambda>i x. x OR push_bit (8 * i) (uint (buf ! i))) [0..<8] 0))"

text \<open>
  \<^verbatim>\<open>
  function parseDao(daoHex) {
    const h = daoHex.startsWith("0x") ? daoHex.slice(2) : daoHex;
    if (h.length !== 64) throw new Error(`dao field must be 32 bytes, got hexlen=${h.length}`);
    const seg = (i) => h.slice(i * 16, (i + 1) * 16);
    const C = u64leFromHex16(seg(0));
    const U = u64leFromHex16(seg(3));
    return { C, U };
  }
  \<close>
\<close>

record dao_CU =
  dao_C :: int
  dao_U :: int

definition seg :: "string \<Rightarrow> nat \<Rightarrow> string" where
  "seg h i = take 16 (drop (i * 16) h)"

definition parseDao :: "string \<Rightarrow> error + dao_CU" where
  "parseDao daoHex =
     (let h = strip0x daoHex in
      if length h \<noteq> 64 then Inl MalformedField
      else case u64leFromHex16 (seg h 0) of
             Inl err \<Rightarrow> Inl err
           | Inr C \<Rightarrow>
               (case u64leFromHex16 (seg h 3) of
                  Inl err \<Rightarrow> Inl err
                | Inr U \<Rightarrow> Inr \<lparr> dao_C = C, dao_U = U \<rparr>))"

subsection \<open>The decoders of the DAO cell scans (AR and S)\<close>

text \<open>
  \<^verbatim>\<open>
  function parseDaoAR(daoHex) {
    const buf = Buffer.from(daoHex.slice(2), 'hex');
    return buf.readBigUInt64LE(8);
  }
  function parseDaoS(daoHex) {
    const buf = Buffer.from(daoHex.slice(2), 'hex');
    return buf.readBigUInt64LE(16);
  }
  \<close>
\<close>

definition parseDaoAR :: "string \<Rightarrow> error + int" where
  "parseDaoAR daoHex = readBigUInt64LE (bufferFromHex (drop 2 daoHex)) 8"

definition parseDaoS :: "string \<Rightarrow> error + int" where
  "parseDaoS daoHex = readBigUInt64LE (bufferFromHex (drop 2 daoHex)) 16"

section \<open>The header scan (miners' secondary issuance from genesis to tip)\<close>

text \<open>
  A header as \<open>get_header_by_number\<close> returns it, with the two fields the scan reads:
  \<open>dao\<close>, a hexadecimal string, and \<open>epoch\<close>. \<open>hd_epoch\<close> is \<open>None\<close> when the field is
  not a string, and otherwise the BigInt that the string denotes.
\<close>

record header =
  hd_dao :: string
  hd_epoch :: "int option"

record scan_state =
  prevHeader :: header
  totalMinerSecondary :: int

text \<open>
  The body of the inner loop of \<open>main\<close>, up to \<open>miner_i\<close>:
  \<^verbatim>\<open>
      const { C: Cprev, U: Uprev } = parseDao(prevHeader.dao);
      if (typeof curHeader.epoch !== "string") {
        console.error("BAD header.epoch type at block", i, "epoch=", curHeader.epoch);
        process.exit(1);
      }
      const ep = parseEpochPacked(curHeader.epoch);
      ep.raw = curHeader.epoch;
      if (!Number.isFinite(ep.length) || ep.length <= 0) {
        console.error("BAD epoch length at block", i, "epoch=", curHeader.epoch);
        ...
        process.exit(1);
      }
      const s_i = perBlockSecondary(ep.length, ep.index);
      const miner_i = (s_i * Uprev) / Cprev;
  \<close>
\<close>

definition minerSecondary :: "header \<Rightarrow> header \<Rightarrow> error + int" where
  "minerSecondary prev curHeader =
     (case parseDao (hd_dao prev) of
        Inl err \<Rightarrow> Inl err
      | Inr cu \<Rightarrow>
          (case hd_epoch curHeader of
             None \<Rightarrow> Inl BadEpoch
           | Some e \<Rightarrow>
               (let ep = parseEpochPacked e in
                if ep_length ep \<le> 0 then Inl BadEpoch
                else case perBlockSecondary (ep_length ep) (ep_index ep) of
                       Inl err \<Rightarrow> Inl err
                     | Inr s_i \<Rightarrow> bigint_div (s_i * dao_U cu) (dao_C cu))))"

text \<open>
  The rest of the loop body (the printing of samples and progress left out):
  \<^verbatim>\<open>
      totalMinerSecondary += miner_i;
      ...
      prevHeader = curHeader;
  \<close>
\<close>

definition block_step :: "scan_state \<Rightarrow> header \<Rightarrow> error + scan_state" where
  "block_step st curHeader =
     (case minerSecondary (prevHeader st) curHeader of
        Inl err \<Rightarrow> Inl err
      | Inr miner_i \<Rightarrow>
          Inr \<lparr> prevHeader = curHeader,
                totalMinerSecondary = totalMinerSecondary st + miner_i \<rparr>)"

text \<open>
  One window of headers. \<open>out\<close> has one slot for each height of \<open>winFrom .. winTo\<close>;
  each worker takes the next height, fetches its header and stores it at
  \<open>out[n - winFrom]\<close>, until the heights are used up. With at least one worker every slot
  is filled, in order of height; \<open>Array.from({ length: CONCURRENCY }, ...)\<close> starts no
  worker when \<open>CONCURRENCY\<close> is below 1, and every slot stays \<open>undefined\<close> (\<open>None\<close>).
  \<open>CONCURRENCY\<close> and \<open>WINDOW_MULT\<close> are taken to be integers.
  \<^verbatim>\<open>
    const out = new Array(count);
    let next = winFrom;
    async function worker() {
      while (true) {
        const n = next++;
        if (n > winTo) return;
        const h = await getHeaderByNumber(n);
        out[n - winFrom] = h;
      }
    }
    await Promise.all(Array.from({ length: CONCURRENCY }, () => worker()));
  \<close>
\<close>

definition fetch_window :: "(int \<Rightarrow> header) \<Rightarrow> int \<Rightarrow> int \<Rightarrow> int \<Rightarrow> header option list" where
  "fetch_window getHeaderByNumber CONCURRENCY winFrom winTo =
     (if 1 \<le> CONCURRENCY then map (\<lambda>n. Some (getHeaderByNumber n)) [winFrom .. winTo]
      else map (\<lambda>n. None) [winFrom .. winTo])"

text \<open>
  \<^verbatim>\<open>for (let k = 0; k < out.length; k++) { ... }\<close> over one fetched window. On a slot
  that is \<open>undefined\<close> the body decodes the previous header's accounting field and then
  raises \<open>TypeError\<close> at \<open>curHeader.epoch\<close>.
\<close>

fun scan_window :: "scan_state \<Rightarrow> header option list \<Rightarrow> error + scan_state" where
  "scan_window st [] = Inr st"
| "scan_window st (None # out) =
     (case parseDao (hd_dao (prevHeader st)) of
        Inl err \<Rightarrow> Inl err
      | Inr cu \<Rightarrow> Inl TypeError)"
| "scan_window st (Some curHeader # out) =
     (case block_step st curHeader of
        Inl err \<Rightarrow> Inl err
      | Inr st' \<Rightarrow> scan_window st' out)"

text \<open>
  The outer loop, with \<open>windowSize = Math.max(1, CONCURRENCY * WINDOW_MULT)\<close>:
  \<^verbatim>\<open>
  let cur = start;
  const windowSize = Math.max(1, CONCURRENCY * WINDOW_MULT);
  while (cur <= end) {
    const winFrom = cur;
    const winTo = Math.min(end, winFrom + windowSize - 1);
    const count = winTo - winFrom + 1;
    ...
    cur = winTo + 1;
  }
  \<close>
\<close>

function scan_from ::
  "(int \<Rightarrow> header) \<Rightarrow> int \<Rightarrow> int \<Rightarrow> int \<Rightarrow> scan_state \<Rightarrow> int \<Rightarrow> error + scan_state" where
  "scan_from getHeaderByNumber CONCURRENCY WINDOW_MULT end st cur =
     (if cur \<le> end then
        (case scan_window st
                (fetch_window getHeaderByNumber CONCURRENCY cur
                   (min end (cur + max 1 (CONCURRENCY * WINDOW_MULT) - 1))) of
           Inl err \<Rightarrow> Inl err
         | Inr st' \<Rightarrow>
             scan_from getHeaderByNumber CONCURRENCY WINDOW_MULT end st'
               (min end (cur + max 1 (CONCURRENCY * WINDOW_MULT) - 1) + 1))
      else Inr st)"
  by pat_completeness auto
termination
  by (relation "measure (\<lambda>(g, c, w, e, st, cur). nat (e + 1 - cur))") auto

declare scan_from.simps [simp del]

text \<open>
  \<^verbatim>\<open>
  if (start < 1) throw new Error("START must be >= 1 (needs previous header)");
  if (end > tipNumber) throw new Error(`END (${end}) > tip (${tipNumber})`);
  ...
  let prevHeader = await getHeaderByNumber(start - 1);
  let totalMinerSecondary = 0n;
  \<close>
\<close>

definition main_secondary ::
  "(int \<Rightarrow> header) \<Rightarrow> int \<Rightarrow> int \<Rightarrow> int \<Rightarrow> int \<Rightarrow> int \<Rightarrow> error + int" where
  "main_secondary getHeaderByNumber tipNumber CONCURRENCY WINDOW_MULT start end =
     (if start < 1 then Inl BadRange
      else if end > tipNumber then Inl BadRange
      else case scan_from getHeaderByNumber CONCURRENCY WINDOW_MULT end
                  \<lparr> prevHeader = getHeaderByNumber (start - 1), totalMinerSecondary = 0 \<rparr> start of
             Inl err \<Rightarrow> Inl err
           | Inr st \<Rightarrow> Inr (totalMinerSecondary st))"

text \<open>
  Sample headers: one whose accounting field has C = 10000 and U = 1000, one whose
  accounting field is all zero, and one of block 10 of the 1800 blocks of epoch 5678.
\<close>

definition sample_prev_header :: header where
  "sample_prev_header =
     \<lparr> hd_dao = ''0x10270000000000000000c16ff28623000500000000000000e803000000000000'',
       hd_epoch = Some 1979121080997422 \<rparr>"

definition sample_zero_header :: header where
  "sample_zero_header =
     \<lparr> hd_dao = ''0x0000000000000000000000000000000000000000000000000000000000000000'',
       hd_epoch = Some 1979121080997422 \<rparr>"

definition sample_cur_header :: header where
  "sample_cur_header =
     \<lparr> hd_dao = ''0x20270000000000000000c16ff28623000500000000000000e903000000000000'',
       hd_epoch = Some 1979121097774638 \<rparr>"

section \<open>The DAO live-cell scans (unclaimed rewards)\<close>

text \<open>
  Three scripts walk the live DAO cells that \<open>get_cells\<close> returns, page after page
  (the generator \<open>getDaoLiveCells\<close>), and add up unclaimed rewards:
  \<^item> the deposit total (second file of part 001), which treats every cell as a deposit;
  \<^item> the unclaimed total (first file of part 001), which tells deposit cells from
    prepare-withdraw cells and skips cells without free capacity;
  \<^item> the unclaimed total with holder statistics (part 000), which uses the occupied
    capacity of \<open>ckb_capacity.js\<close> and has no free-capacity guard.
  Each is a function \<open>main\<close> in its file. The models take the sequence of yielded cells,
  the accounting field of the indexer tip's header, and \<open>headerDao\<close>, the accounting
  field of the header that \<open>get_header_by_number\<close> returns for a block number.
\<close>

record live_cell =
  lc_output :: cell_output
  output_data :: string
  block_number :: string

text \<open>
  The expression shared by all the scans, \<^verbatim>\<open>(free * AR) / AR_i - free\<close>, on BigInt.
\<close>

definition reward_of :: "int \<Rightarrow> int \<Rightarrow> int \<Rightarrow> error + int" where
  "reward_of free AR_to AR_from =
     (case bigint_div (free * AR_to) AR_from of
        Inl err \<Rightarrow> Inl err
      | Inr q \<Rightarrow> Inr (q - free))"

subsection \<open>Occupied capacity by molecule sizing (part 001)\<close>

text \<open>
  \<^verbatim>\<open>
  function hexBytesLen(hex) {
    if (!hex || hex === '0x') return 0;
    return (hex.length - 2) / 2;
  }
  function scriptSizeBytes(script) {
    const argsLen = hexBytesLen(script?.args || '0x');
    // rough-but-correct molecule sizing
    return 4 + 12 + 32 + 1 + 4 + argsLen;
  }
  function cellSizeBytes(output, dataHex) {
    const lockSize = scriptSizeBytes(output.lock);
    const typeSize = output.type ? (1 + scriptSizeBytes(output.type)) : 1;
    const dataSize = 4 + hexBytesLen(dataHex);
    return 4 + 8 + lockSize + typeSize + dataSize + 8;
  }
  function occupiedCapacity(output, dataHex) {
    return BigInt(cellSizeBytes(output, dataHex)) * SHANNONS_PER_BYTE;
  }
  \<close>
  This \<open>hexBytesLen\<close> divides as a JavaScript Number, so that a string of odd length has
  a length ending in one half, and \<open>BigInt\<close> of a Number that is not an integer raises
  \<open>RangeError\<close>. The sizes are therefore modelled doubled (the suffix 2): every
  constant of the source appears times two, and \<open>occupiedCapacity\<close> fails when the doubled
  size is odd.
\<close>

definition hexBytesLen2 :: "string \<Rightarrow> int" where
  "hexBytesLen2 hex = (if hex = [] \<or> hex = ''0x'' then 0 else int (length hex) - 2)"

definition scriptSizeBytes2 :: "script option \<Rightarrow> int" where
  "scriptSizeBytes2 s =
     (let argsLen2 = hexBytesLen2 (case s of
                                     None \<Rightarrow> ''0x''
                                   | Some sc \<Rightarrow> if args sc = [] then ''0x'' else args sc)
      in 2 * (4 + 12 + 32 + 1 + 4) + argsLen2)"

definition cellSizeBytes2 :: "cell_output \<Rightarrow> string \<Rightarrow> int" where
  "cellSizeBytes2 output dataHex =
     (let lockSize2 = scriptSizeBytes2 (Some (lock output));
          typeSize2 = (case type_script output of
                         Some t \<Rightarrow> 2 * 1 + scriptSizeBytes2 (Some t)
                       | None \<Rightarrow> 2 * 1);
          dataSize2 = 2 * 4 + hexBytesLen2 dataHex
      in 2 * (4 + 8) + lockSize2 + typeSize2 + dataSize2 + 2 * 8)"

definition SHANNONS_PER_BYTE :: int where
  "SHANNONS_PER_BYTE = 100000000"

definition occupiedCapacity_molecule :: "cell_output \<Rightarrow> string \<Rightarrow> error + int" where
  "occupiedCapacity_molecule output dataHex =
     (let n2 = cellSizeBytes2 output dataHex in
      if odd n2 then Inl RangeError
      else Inr ((n2 div 2) * SHANNONS_PER_BYTE))"

subsection \<open>Prepare-withdraw data and the accumulated-rate cache\<close>

text \<open>\<open>bn.toString(16)\<close> of a non-negative BigInt: lower-case digits, no leading zero.\<close>

definition hexChar :: "nat \<Rightarrow> char" where
  "hexChar n = ''0123456789abcdef'' ! n"

fun toString16 :: "nat \<Rightarrow> string" where
  "toString16 n = (if n < 16 then [hexChar n] else toString16 (n div 16) @ [hexChar (n mod 16)])"

declare toString16.simps [simp del]

text \<open>
  \<^verbatim>\<open>
  function parsePrepareBlockNumberHex(outputData) {
    // outputData should be 8 bytes (16 hex chars) + 0x
    if (!outputData || outputData === '0x') {
      throw new Error(`invalid output_data for prepare-withdraw: ${outputData}`);
    }
    const hex = outputData.startsWith('0x') ? outputData.slice(2) : outputData;
    if (hex.length !== 16) {
      throw new Error(`prepare output_data must be 8 bytes (16 hex), got len=${hex.length}: ${outputData}`);
    }
    const buf = Buffer.from(hex, 'hex');
    const bn = buf.readBigUInt64LE(0); // BigInt
    return '0x' + bn.toString(16);
  }
  \<close>
  A missing \<open>output_data\<close> is the empty string.
\<close>

definition parsePrepareBlockNumberHex :: "string \<Rightarrow> error + string" where
  "parsePrepareBlockNumberHex outputData =
     (if outputData = [] \<or> outputData = ''0x'' then Inl InvalidCellShape
      else let hex = strip0x outputData in
        if length hex \<noteq> 16 then Inl InvalidCellShape
        else case readBigUInt64LE (bufferFromHex hex) 0 of
               Inl err \<Rightarrow> Inl err
             | Inr bn \<Rightarrow> Inr (''0x'' @ toString16 (nat bn)))"

text \<open>
  \<^verbatim>\<open>
  async function getARByBlockNumberHex(bnHex, arCache) {
    if (arCache.has(bnHex)) return arCache.get(bnHex);
    const h = await rpc('get_header_by_number', [bnHex], { timeoutMs: 120_000, retries: 5 });
    const ar = parseDaoAR(h.dao);
    arCache.set(bnHex, ar);
    return ar;
  }
  \<close>
  The cache is a map from block numbers to rates; the function returns the rate and the
  cache it leaves. The scans call it one cell after the other.
\<close>

definition getARByBlockNumberHex ::
  "(string \<Rightarrow> string) \<Rightarrow> string \<Rightarrow> (string \<rightharpoonup> int) \<Rightarrow> error + int \<times> (string \<rightharpoonup> int)" where
  "getARByBlockNumberHex headerDao bnHex arCache =
     (case arCache bnHex of
        Some ar \<Rightarrow> Inr (ar, arCache)
      | None \<Rightarrow>
          (case parseDaoAR (headerDao bnHex) of
             Inl err \<Rightarrow> Inl err
           | Inr ar \<Rightarrow> Inr (ar, arCache(bnHex \<mapsto> ar))))"

text \<open>Every cached rate is the rate of the header of its block.\<close>

definition cache_ok :: "(string \<Rightarrow> string) \<Rightarrow> (string \<rightharpoonup> int) \<Rightarrow> bool" where
  "cache_ok headerDao cache = (\<forall>k v. cache k = Some v \<longrightarrow> parseDaoAR (headerDao k) = Inr v)"

definition DEPOSIT_DATA :: string where
  "DEPOSIT_DATA = ''0x0000000000000000''"

text \<open>The loop \<^verbatim>\<open>for await (const c of getDaoLiveCells()) { ... }\<close> over a step.\<close>

fun scan_cells :: "('s \<Rightarrow> live_cell \<Rightarrow> error + 's) \<Rightarrow> 's \<Rightarrow> live_cell list \<Rightarrow> error + 's" where
  "scan_cells step st [] = Inr st"
| "scan_cells step st (c # cs) =
     (case step st c of
        Inl err \<Rightarrow> Inl err
      | Inr st' \<Rightarrow> scan_cells step st' cs)"

subsection \<open>The deposit total (part 001, second file)\<close>

text \<open>
  \<^verbatim>\<open>
  for await (const c of getDaoLiveCells()) {
    const cap = BigInt(c.output.capacity);
    const occ = occupiedCapacity(c.output, c.output_data);
    const free = cap - occ;

    daoDeposit += cap;

    if (!arCache.has(c.block_number)) {
      const h = await rpc('get_header_by_number', [c.block_number]);
      arCache.set(c.block_number, parseDaoAR(h.dao));
    }

    if (free > 0n) {
      const AR_deposit = arCache.get(c.block_number);
      const reward = (free * AR) / AR_deposit - free;
      if (reward > 0n) unclaimed += reward;
    }
  }
  \<close>
\<close>

record deposit_totals =
  daoDeposit :: int
  unclaimed :: int
  arCache :: "string \<rightharpoonup> int"



subsection \<open>The unclaimed totals (part 001, first file, and part 000)\<close>

text \<open>
  The state of both scans; \<open>u_daoDeposit\<close> is used by the first and
  \<open>unclaimedDepositCapacity\<close> by the second only. The second scan's sets of lock
  scripts and its cache of timestamps do not enter any total and are left out.
\<close>

record unclaimed_totals =
  u_daoDeposit :: int
  unclaimedDeposit :: int
  unclaimedPrepare :: int
  cntDeposit :: nat
  cntPrepare :: nat
  unclaimedDepositCapacity :: int
  u_arCache :: "string \<rightharpoonup> int"

definition new_unclaimed_totals :: unclaimed_totals where
  "new_unclaimed_totals =
     \<lparr> u_daoDeposit = 0, unclaimedDeposit = 0, unclaimedPrepare = 0, cntDeposit = 0,
       cntPrepare = 0, unclaimedDepositCapacity = 0, u_arCache = Map.empty \<rparr>"

text \<open>
  The deposit branch, after the counters:
  \<^verbatim>\<open>
      // deposit height i = c.block_number
      const AR_i = await getARByBlockNumberHex(c.block_number, arCache);
      // tip height k = indexer tip
      const reward = (free * AR) / AR_i - free; // AR is tip AR_k
      if (reward > 0n) unclaimedDeposit += reward;
  \<close>
\<close>

definition deposit_branch ::
  "(string \<Rightarrow> string) \<Rightarrow> int \<Rightarrow> int \<Rightarrow> unclaimed_totals \<Rightarrow> live_cell \<Rightarrow> error + unclaimed_totals" where
  "deposit_branch headerDao AR free st c =
     (case getARByBlockNumberHex headerDao (block_number c) (u_arCache st) of
        Inl err \<Rightarrow> Inl err
      | Inr (AR_i, cache1) \<Rightarrow>
          (case reward_of free AR AR_i of
             Inl err \<Rightarrow> Inl err
           | Inr reward \<Rightarrow>
               Inr (if reward > 0
                    then st\<lparr> unclaimedDeposit := unclaimedDeposit st + reward, u_arCache := cache1 \<rparr>
                    else st\<lparr> u_arCache := cache1 \<rparr>)))"

text \<open>
  The prepare-withdraw branch, after the counters:
  \<^verbatim>\<open>
      // deposit height i is stored in output_data
      const depositBnHex = parsePrepareBlockNumberHex(c.output_data);
      const AR_i = await getARByBlockNumberHex(depositBnHex, arCache);
      // prepare height j = c.block_number (this cell created at prepare tx)
      const AR_j = await getARByBlockNumberHex(c.block_number, arCache);
      const reward = (free * AR_j) / AR_i - free;
      if (reward > 0n) unclaimedPrepare += reward;
  \<close>
\<close>

definition prepare_branch ::
  "(string \<Rightarrow> string) \<Rightarrow> int \<Rightarrow> unclaimed_totals \<Rightarrow> live_cell \<Rightarrow> error + unclaimed_totals" where
  "prepare_branch headerDao free st c =
     (case parsePrepareBlockNumberHex (output_data c) of
        Inl err \<Rightarrow> Inl err
      | Inr depositBnHex \<Rightarrow>
          (case getARByBlockNumberHex headerDao depositBnHex (u_arCache st) of
             Inl err \<Rightarrow> Inl err
           | Inr (AR_i, cache1) \<Rightarrow>
               (case getARByBlockNumberHex headerDao (block_number c) cache1 of
                  Inl err \<Rightarrow> Inl err
                | Inr (AR_j, cache2) \<Rightarrow>
                    (case reward_of free AR_j AR_i of
                       Inl err \<Rightarrow> Inl err
                     | Inr reward \<Rightarrow>
                         Inr (if reward > 0
                              then st\<lparr> unclaimedPrepare := unclaimedPrepare st + reward, u_arCache := cache2 \<rparr>
                              else st\<lparr> u_arCache := cache2 \<rparr>)))))"

text \<open>
  Part 001, first file:
  \<^verbatim>\<open>
    const cap = BigInt(c.output.capacity);
    const occ = occupiedCapacity(c.output, c.output_data);
    const free = cap - occ;

    daoDeposit += cap;
    if (free <= 0n) continue;

    if (c.output_data === '0x0000000000000000') {
      // ---- deposit cell ----
      cntDeposit++;
      ...
    } else {
      // ---- prepare-withdraw cell ----
      cntPrepare++;
      ...
    }
  \<close>
\<close>

definition unclaimed_step ::
  "(string \<Rightarrow> string) \<Rightarrow> int \<Rightarrow> unclaimed_totals \<Rightarrow> live_cell \<Rightarrow> error + unclaimed_totals" where
  "unclaimed_step headerDao AR st c =
     (let cap = capacity (lc_output c) in
      case occupiedCapacity_molecule (lc_output c) (output_data c) of
        Inl err \<Rightarrow> Inl err
      | Inr occ \<Rightarrow>
          (let free = cap - occ;
               st1 = st\<lparr> u_daoDeposit := u_daoDeposit st + cap \<rparr> in
           if free \<le> 0 then Inr st1
           else if output_data c = DEPOSIT_DATA
             then deposit_branch headerDao AR free (st1\<lparr> cntDeposit := cntDeposit st1 + 1 \<rparr>) c
             else prepare_branch headerDao free (st1\<lparr> cntPrepare := cntPrepare st1 + 1 \<rparr>) c))"

text \<open>
  Part 000, with \<open>occupiedCapacity\<close> imported from \<open>ckb_capacity.js\<close>:
  \<^verbatim>\<open>
    const cap = BigInt(c.output.capacity);
    const occ = occupiedCapacity(c.output, c.output_data);
    const free = cap - occ;

    if (c.output_data === '0x0000000000000000') {
      // ---- deposit cell ----
      cntDeposit++;
      ...
      unclaimedDepositCapacity += cap;
      ...
    } else {
      // ---- prepare-withdraw cell ----
      cntPrepare++;
      ...
    }
  \<close>
\<close>

definition holders_step ::
  "(string \<Rightarrow> string) \<Rightarrow> int \<Rightarrow> unclaimed_totals \<Rightarrow> live_cell \<Rightarrow> error + unclaimed_totals" where
  "holders_step headerDao AR st c =
     (let cap = capacity (lc_output c);
          occ = occupiedCapacity (lc_output c) (output_data c);
          free = cap - occ in
      if output_data c = DEPOSIT_DATA
      then deposit_branch headerDao AR free
             (st\<lparr> cntDeposit := cntDeposit st + 1,
                  unclaimedDepositCapacity := unclaimedDepositCapacity st + cap \<rparr>) c
      else prepare_branch headerDao free (st\<lparr> cntPrepare := cntPrepare st + 1 \<rparr>) c)"

definition main_unclaimed ::
  "string \<Rightarrow> (string \<Rightarrow> string) \<Rightarrow> live_cell list \<Rightarrow> error + unclaimed_totals" where
  "main_unclaimed tipDao headerDao cells =
     (case parseDaoAR tipDao of
        Inl err \<Rightarrow> Inl err
      | Inr AR \<Rightarrow>
          (case parseDaoS tipDao of
             Inl err \<Rightarrow> Inl err
           | Inr S \<Rightarrow> scan_cells (unclaimed_step headerDao AR) new_unclaimed_totals cells))"

definition main_holders ::
  "string \<Rightarrow> (string \<Rightarrow> string) \<Rightarrow> live_cell list \<Rightarrow> error + unclaimed_totals" where
  "main_holders tipDao headerDao cells =
     (case parseDaoAR tipDao of
        Inl err \<Rightarrow> Inl err
      | Inr AR \<Rightarrow>
          (case parseDaoS tipDao of
             Inl err \<Rightarrow> Inl err
           | Inr S \<Rightarrow> scan_cells (holders_step headerDao AR) new_unclaimed_totals cells))"

subsection \<open>Sample inputs of the cell scans\<close>

text \<open>
  Accounting fields with the accumulated rates \<open>1.05 * 10 ^ 16\<close> (a tip), \<open>10 ^ 16\<close>
  (a deposit block) and 0, and a DAO cell with empty script arguments, a given capacity
  and given data, created in block \<open>0x1000\<close>.
\<close>

definition sample_tip_dao :: string where
  "sample_tip_dao = ''0x1027000000000000004024c2b14d25000500000000000000e803000000000000''"

definition sample_deposit_dao :: string where
  "sample_deposit_dao = ''0x10270000000000000000c16ff28623000500000000000000e803000000000000''"


definition sample_cell :: "int \<Rightarrow> string \<Rightarrow> live_cell" where
  "sample_cell cap data =
     \<lparr> lc_output =
         \<lparr> capacity = cap,
           lock = \<lparr> code_hash = ''0x9b'', hash_type = ''type'', args = ''0x'' \<rparr>,
           type_script = Some \<lparr> code_hash = ''0x82'', hash_type = ''type'', args = ''0x'' \<rparr> \<rparr>,
       output_data = data,
       block_number = ''0x1000'' \<rparr>"

section \<open>The checkpointed miner-reward scan (miner_reward.js)\<close>


















section \<open>The settlement-reward scan with a set of seen transactions (part 005)\<close>

text \<open>
  \<open>computeWithdraw2Reward\<close> pages through \<open>get_transactions\<close> for the DAO type script.
  An index object carries an \<open>io_type\<close> and a transaction hash (the empty string when the
  field is missing); a page carries its objects and the cursor for the next page (the
  empty string when there is none).
\<close>

record tx_object =
  io_type :: string
  tx_hash :: string

record tx_page =
  objects :: "tx_object list"
  last_cursor :: string

text \<open>
  The counters and totals of the scan. \<open>processed\<close> is not a variable of the source: it
  records, in order, the hashes for which the reward callback has been invoked, so that
  the properties of the scan can be stated.
\<close>

record w2_state =
  seenObjects :: nat
  seenInputObjects :: nat
  seenTx :: "string set"
  withdraw2Txs :: nat
  totalReward :: int
  processed :: "string list"

text \<open>
  \<^verbatim>\<open>
    const inputTxHashes = [];
    for (const o of objs) {
      seenObjects++;
      const ioType = o.io_type ?? o.ioType;
      if (ioType === 'input') {
        cntInput++;
        seenInputObjects++;
        const h = o.tx_hash ?? o.txHash;
        if (h && !seenTx.has(h)) {
          seenTx.add(h);
          inputTxHashes.push(h);
        }
      } else if (ioType === 'output') {
        cntOutput++;
      } else {
        cntOther++;
      }
    }
  \<close>
  The counters of one page (\<open>cntInput\<close>, \<open>cntOutput\<close>, \<open>cntOther\<close>) are only printed.
\<close>

fun collect_inputs :: "w2_state \<Rightarrow> tx_object list \<Rightarrow> string list \<Rightarrow> w2_state \<times> string list" where
  "collect_inputs st [] inputTxHashes = (st, inputTxHashes)"
| "collect_inputs st (ob # objs) inputTxHashes =
     (let st1 = st\<lparr> seenObjects := seenObjects st + 1 \<rparr> in
      if io_type ob = ''input'' then
        (let st2 = st1\<lparr> seenInputObjects := seenInputObjects st1 + 1 \<rparr>;
             h = tx_hash ob in
         if h \<noteq> [] \<and> h \<notin> seenTx st2
         then collect_inputs (st2\<lparr> seenTx := insert h (seenTx st2) \<rparr>) objs (inputTxHashes @ [h])
         else collect_inputs st2 objs inputTxHashes)
      else collect_inputs st1 objs inputTxHashes)"

text \<open>
  The callback given to \<open>mapLimit\<close> fetches the transaction, finds the inputs that spend
  prepare-withdraw cells, and adds up their rewards in \<open>txRewardSum\<close>. What it computes
  for a hash is the parameter \<open>tx_reward\<close> here: an error when the callback raises,
  \<open>None\<close> when it returns early (no transaction, or no rewarded input), and the sum
  otherwise. Its effect on the scan's totals is
  \<^verbatim>\<open>
      if (prepareInputs === 0) return;
      totalReward += txRewardSum;
      rewardInPage += txRewardSum;
      withdraw2Txs++;
  \<close>
\<close>

definition process_tx :: "(string \<Rightarrow> error + int option) \<Rightarrow> w2_state \<Rightarrow> string \<Rightarrow> error + w2_state" where
  "process_tx tx_reward st txHash =
     (case tx_reward txHash of
        Inl err \<Rightarrow> Inl err
      | Inr None \<Rightarrow> Inr (st\<lparr> processed := processed st @ [txHash] \<rparr>)
      | Inr (Some txRewardSum) \<Rightarrow>
          Inr (st\<lparr> totalReward := totalReward st + txRewardSum,
                    withdraw2Txs := withdraw2Txs st + 1,
                    processed := processed st @ [txHash] \<rparr>))"

text \<open>
  \<^verbatim>\<open>
  async function mapLimit(arr, limit, fn) {
    let i = 0;
    const workers = Array.from({ length: limit }, async () => {
      while (true) {
        const idx = i++;
        if (idx >= arr.length) return;
        await fn(arr[idx], idx);
      }
    });
    await Promise.all(workers);
  }
  \<close>
  Every index is taken by one worker, once; without workers nothing is called. The
  model calls \<open>fn\<close> on the elements in the order of their indices and ends with the
  first error.
\<close>

fun mapLimit_fold :: "('s \<Rightarrow> string \<Rightarrow> error + 's) \<Rightarrow> 's \<Rightarrow> string list \<Rightarrow> error + 's" where
  "mapLimit_fold fn st [] = Inr st"
| "mapLimit_fold fn st (x # arr) =
     (case fn st x of
        Inl err \<Rightarrow> Inl err
      | Inr st' \<Rightarrow> mapLimit_fold fn st' arr)"

definition mapLimit :: "string list \<Rightarrow> nat \<Rightarrow> ('s \<Rightarrow> string \<Rightarrow> error + 's) \<Rightarrow> 's \<Rightarrow> error + 's" where
  "mapLimit arr limit fn st = (if limit = 0 then Inr st else mapLimit_fold fn st arr)"

text \<open>
  The loop over the pages. Whether it ends depends on the node, so the model counts the
  requests: with none left it returns the state reached and \<open>False\<close>; a finished scan
  returns \<open>True\<close>.
  \<^verbatim>\<open>
  while (true) {
    page++;
    ...
    const params = [searchKey, 'desc', pageLimit];
    if (cursor && cursor !== '0x' && cursor !== '0x0') params.push(cursor);
    const res = await rpc('get_transactions', params, { timeoutMs: 120_000, retries: 5 });
    const objs = res.objects || [];
    if (objs.length === 0) { ... break; }
    ...
    await mapLimit(inputTxHashes, CONCURRENCY, async (txHash) => { ... });
    ...
    const last = res.last_cursor;
    if (!last || last === '0x' || last === '0x0') break;
    cursor = last;
  }
  \<close>
\<close>

fun scan_pages ::
  "nat \<Rightarrow> (string option \<Rightarrow> tx_page) \<Rightarrow> nat \<Rightarrow> (string \<Rightarrow> error + int option)
     \<Rightarrow> w2_state \<Rightarrow> string option \<Rightarrow> error + w2_state \<times> bool" where
  "scan_pages 0 get_transactions CONCURRENCY tx_reward st cursor = Inr (st, False)"
| "scan_pages (Suc n) get_transactions CONCURRENCY tx_reward st cursor =
     (let res = get_transactions cursor;
          objs = objects res in
      if objs = [] then Inr (st, True)
      else
        (let (st1, inputTxHashes) = collect_inputs st objs [] in
         case mapLimit inputTxHashes CONCURRENCY (process_tx tx_reward) st1 of
           Inl err \<Rightarrow> Inl err
         | Inr st2 \<Rightarrow>
             (let last = last_cursor res in
              if last = [] \<or> last = ''0x'' \<or> last = ''0x0'' then Inr (st2, True)
              else scan_pages n get_transactions CONCURRENCY tx_reward st2 (Some last))))"

definition new_w2_state :: w2_state where
  "new_w2_state =
     \<lparr> seenObjects = 0, seenInputObjects = 0, seenTx = {}, withdraw2Txs = 0, totalReward = 0,
       processed = [] \<rparr>"

definition computeWithdraw2Reward ::
  "nat \<Rightarrow> (string option \<Rightarrow> tx_page) \<Rightarrow> nat \<Rightarrow> (string \<Rightarrow> error + int option)
     \<Rightarrow> error + w2_state \<times> bool" where
  "computeWithdraw2Reward n get_transactions CONCURRENCY tx_reward =
     scan_pages n get_transactions CONCURRENCY tx_reward new_w2_state None"

text \<open>What one invocation of the callback adds to the total.\<close>

definition reward_added :: "(string \<Rightarrow> error + int option) \<Rightarrow> string \<Rightarrow> int" where
  "reward_added tx_reward h = (case tx_reward h of Inr (Some r) \<Rightarrow> r | _ \<Rightarrow> 0)"

text \<open>The invariant of the scan.\<close>

definition w2_inv :: "(string \<Rightarrow> error + int option) \<Rightarrow> w2_state \<Rightarrow> bool" where
  "w2_inv tx_reward st =
     (distinct (processed st) \<and> set (processed st) \<subseteq> seenTx st \<and>
      totalReward st = (\<Sum>h\<leftarrow>processed st. reward_added tx_reward h))"

text \<open>
  A sample index of two pages in which the hash \<open>0xaa\<close> occurs three times and on both
  pages and the hash \<open>0xbb\<close> on both pages, and sample rewards.
\<close>

definition sample_index :: "string option \<Rightarrow> tx_page" where
  "sample_index cursor =
     (if cursor = None then
        \<lparr> objects = [\<lparr> io_type = ''input'', tx_hash = ''0xaa'' \<rparr>,
                     \<lparr> io_type = ''output'', tx_hash = ''0xaa'' \<rparr>,
                     \<lparr> io_type = ''input'', tx_hash = ''0xaa'' \<rparr>,
                     \<lparr> io_type = ''input'', tx_hash = ''0xbb'' \<rparr>],
          last_cursor = ''0x10'' \<rparr>
      else if cursor = Some ''0x10'' then
        \<lparr> objects = [\<lparr> io_type = ''input'', tx_hash = ''0xbb'' \<rparr>,
                     \<lparr> io_type = ''input'', tx_hash = ''0xcc'' \<rparr>,
                     \<lparr> io_type = ''input'', tx_hash = ''0xaa'' \<rparr>],
          last_cursor = ''0x'' \<rparr>
      else \<lparr> objects = [], last_cursor = [] \<rparr>)"

definition sample_tx_reward :: "string \<Rightarrow> error + int option" where
  "sample_tx_reward h =
     (if h = ''0xaa'' then Inr (Some 5) else if h = ''0xcc'' then Inr (Some 7) else Inr None)"

section \<open>The memoizing resolvers under concurrent callers (part 005)\<close>

text \<open>
  \<^verbatim>\<open>
  // get_transaction cache
  const txCache = new Map();

  async function getTx(txHash) {
    if (txCache.has(txHash)) return txCache.get(txHash);
    const v = await rpc('get_transaction', [txHash], { timeoutMs: 120_000, retries: 5 });
    txCache.set(txHash, v);
    return v;
  }

  // AR cache by block_number hex
  const arCache = new Map();

  async function getARByBlockNumberHex(bnHex) {
    if (arCache.has(bnHex)) return arCache.get(bnHex);
    const h = await rpc('get_header_by_number', [bnHex], { timeoutMs: 120_000, retries: 5 });
    const ar = parseDaoAR(h.dao);
    arCache.set(bnHex, ar);
    return ar;
  }
  \<close>
  The workers of \<open>mapLimit\<close> call these functions while other calls are suspended. A
  JavaScript function runs without interruption up to its next \<open>await\<close>, so a call has
  two indivisible parts: it enters, and either returns the cached value or sends its
  request and suspends; and, when the request's result arrives, it resumes, stores the
  value and returns it. Calls of other workers can run between the two parts.

  The state of a resolver is its cache, the keys of the requests in flight (one entry
  for each suspended call) and, for the statement of properties, the log of all requests
  sent. Both functions have the same shape; they differ in how the result of the request
  becomes the cached value (\<open>decode\<close>).
\<close>

record 'v memo =
  memo_cache :: "string \<rightharpoonup> 'v"
  in_flight :: "string list"
  fetch_log :: "string list"

definition new_memo :: "'v memo" where
  "new_memo = \<lparr> memo_cache = Map.empty, in_flight = [], fetch_log = [] \<rparr>"

definition memo_enter :: "'v memo \<Rightarrow> string \<Rightarrow> 'v memo \<times> 'v option" where
  "memo_enter st key =
     (case memo_cache st key of
        Some v \<Rightarrow> (st, Some v)
      | None \<Rightarrow> (st\<lparr> in_flight := in_flight st @ [key], fetch_log := fetch_log st @ [key] \<rparr>, None))"

definition memo_resume ::
  "('r \<Rightarrow> error + 'v) \<Rightarrow> 'v memo \<Rightarrow> string \<Rightarrow> 'r \<Rightarrow> 'v memo \<times> (error + 'v)" where
  "memo_resume decode st key r =
     (let st1 = st\<lparr> in_flight := remove1 key (in_flight st) \<rparr> in
      case decode r of
        Inl err \<Rightarrow> (st1, Inl err)
      | Inr v \<Rightarrow> (st1\<lparr> memo_cache := (memo_cache st1)(key \<mapsto> v) \<rparr>, Inr v))"

definition getTx_enter :: "'tx memo \<Rightarrow> string \<Rightarrow> 'tx memo \<times> 'tx option" where
  "getTx_enter txCache txHash = memo_enter txCache txHash"

definition getTx_resume :: "'tx memo \<Rightarrow> string \<Rightarrow> 'tx \<Rightarrow> 'tx memo \<times> (error + 'tx)" where
  "getTx_resume txCache txHash v = memo_resume Inr txCache txHash v"

definition getARByBlockNumberHex_enter :: "int memo \<Rightarrow> string \<Rightarrow> int memo \<times> int option" where
  "getARByBlockNumberHex_enter cache bnHex = memo_enter cache bnHex"

definition getARByBlockNumberHex_resume ::
  "int memo \<Rightarrow> string \<Rightarrow> string \<Rightarrow> int memo \<times> (error + int)" where
  "getARByBlockNumberHex_resume cache bnHex h_dao = memo_resume parseDaoAR cache bnHex h_dao"

text \<open>
  An interleaving of calls is a sequence of events: a call for a key enters, or one
  request in flight for a key is answered. An answer for a key without a request in
  flight cannot occur and changes nothing.
\<close>

datatype 'r event = Enter string | Resume string 'r

fun memo_run :: "('r \<Rightarrow> error + 'v) \<Rightarrow> 'v memo \<Rightarrow> 'r event list \<Rightarrow> 'v memo" where
  "memo_run decode st [] = st"
| "memo_run decode st (Enter key # evs) = memo_run decode (fst (memo_enter st key)) evs"
| "memo_run decode st (Resume key r # evs) =
     (if key \<in> set (in_flight st)
      then memo_run decode (fst (memo_resume decode st key r)) evs
      else memo_run decode st evs)"


section \<open>Properties\<close>

subsection \<open>Per-block secondary issuance\<close>

lemma count_below_min:
  "0 \<le> m \<Longrightarrow> (\<Sum>i = 0..<n. if int i < m then (1::int) else 0) = min m (int n)"
  by (induction n) auto

lemma perBlockSecondary_pos:
  "0 < L \<Longrightarrow> perBlockSecondary L idx =
     Inr (SECONDARY_EPOCH_REWARD div L + (if idx < SECONDARY_EPOCH_REWARD mod L then 1 else 0))"
  by (simp add: perBlockSecondary_def bigint_div_def bigint_rem_def SECONDARY_EPOCH_REWARD_def)

text \<open>
  Claim C2. For every epoch length \<open>L > 0\<close> the per-block secondary issuance at any
  index is \<open>floor (R / L)\<close>, plus one when the index is below \<open>R mod L\<close>, where \<open>R\<close> is
  the fixed epoch reward; and the issuances of the indices \<open>0 .. L - 1\<close> of one epoch add
  up to \<open>R\<close> exactly.
\<close>

theorem perBlockSecondary_epoch_sum:
  assumes "0 < L"
  shows "perBlockSecondary L idx =
           Inr (SECONDARY_EPOCH_REWARD div L + (if idx < SECONDARY_EPOCH_REWARD mod L then 1 else 0))
       \<and> (\<Sum>i = 0..<nat L. projr (perBlockSecondary L (int i))) = SECONDARY_EPOCH_REWARD"
proof
  show "perBlockSecondary L idx =
           Inr (SECONDARY_EPOCH_REWARD div L + (if idx < SECONDARY_EPOCH_REWARD mod L then 1 else 0))"
    using assms by (rule perBlockSecondary_pos)
next
  let ?R = SECONDARY_EPOCH_REWARD
  let ?q = "?R div L" and ?m = "?R mod L"
  have m0: "0 \<le> ?m" and mL: "?m < L" using assms by simp_all
  have "(\<Sum>i = 0..<nat L. projr (perBlockSecondary L (int i)))
      = (\<Sum>i = 0..<nat L. ?q + (if int i < ?m then 1 else 0))"
    using assms by (simp add: perBlockSecondary_pos)
  also have "\<dots> = (\<Sum>i = 0..<nat L. ?q) + (\<Sum>i = 0..<nat L. if int i < ?m then 1 else 0)"
    by (rule sum.distrib)
  also have "(\<Sum>i = 0..<nat L. if int i < ?m then (1::int) else 0) = min ?m (int (nat L))"
    using m0 by (rule count_below_min)
  also have "min ?m (int (nat L)) = ?m" using mL assms by simp
  also have "(\<Sum>i = 0..<nat L. ?q) = L * ?q" using assms by simp
  also have "L * ?q + ?m = ?R" by simp
  finally show "(\<Sum>i = 0..<nat L. projr (perBlockSecondary L (int i))) = ?R" .
qed

text \<open>The epoch of 1800 blocks: the first block receives the quotient plus one.\<close>

theorem perBlockSecondary_epoch_sum_witness:
  "(0::int) < 1800 \<and> perBlockSecondary 1800 0 = Inr 34094368341
    \<and> (\<Sum>i = 0..<nat 1800. projr (perBlockSecondary 1800 (int i))) = 61369863013698"
proof -
  have h: "(0::int) < 1800" by simp
  have v: "SECONDARY_EPOCH_REWARD div 1800
            + (if (0::int) < SECONDARY_EPOCH_REWARD mod 1800 then 1 else 0) = 34094368341"
    by (simp add: SECONDARY_EPOCH_REWARD_def)
  from perBlockSecondary_epoch_sum [OF h, of 0] show ?thesis
    unfolding v by (simp add: SECONDARY_EPOCH_REWARD_def)
qed

subsection \<open>Epoch field\<close>

lemma lit_mask24: "(0xFFFFFF::int) = mask 24"
  by (simp add: mask_eq_exp_minus_1)

lemma lit_mask16: "(0xFFFF::int) = mask 16"
  by (simp add: mask_eq_exp_minus_1)

lemma take_bit_small_nat: "n < 2 ^ k \<Longrightarrow> take_bit k (int n) = int n"
  by (simp add: take_bit_int_eq_self)

lemma drop_bit_small_nat: "n < 2 ^ k \<Longrightarrow> drop_bit k (int n) = 0"
  by (simp add: drop_bit_eq_div)

text \<open>
  Claim C5. For every number below \<open>2 ^ 24\<close>, index below \<open>2 ^ 16\<close> and length below
  \<open>2 ^ 24\<close> (the positive lengths among them), decoding the packed value
  \<open>(length << 40) | (index << 24) | number\<close> returns exactly the three fields.
\<close>

theorem parseEpochPacked_roundtrip:
  assumes "number < 2 ^ 24" and "index < 2 ^ 16" and "len < 2 ^ 24"
  shows "parseEpochPacked (epochPacked number index len) =
           \<lparr> ep_number = int number, ep_index = int index, ep_length = int len \<rparr>"
  using assms
  by (simp add: parseEpochPacked_def epochPacked_def lit_mask24 lit_mask16
      take_bit_push_bit drop_bit_push_bit_int take_bit_small_nat drop_bit_small_nat
      flip: take_bit_eq_mask)

text \<open>A header sample: epoch 5678, block 10 of 1800.\<close>

theorem parseEpochPacked_roundtrip_witness:
  "(5678::nat) < 2 ^ 24 \<and> (10::nat) < 2 ^ 16 \<and> (1800::nat) < 2 ^ 24 \<and> (0::nat) < 1800 \<and>
   parseEpochPacked (epochPacked 5678 10 1800) =
     \<lparr> ep_number = 5678, ep_index = 10, ep_length = 1800 \<rparr>"
  using parseEpochPacked_roundtrip [of 5678 10 1800] by simp

subsection \<open>Occupied bytes\<close>

lemma hexBytesLen_args_default:
  "hexBytesLen (if a = [] then ''0x'' else a) = hexBytesLen a"
  by (simp add: hexBytesLen_def)

text \<open>
  Claim C6, as amended. For every cell, \<open>occupiedBytes\<close> is 8, plus \<open>32 + 1 + len(args)\<close>
  of the lock script, plus the type contribution, plus the data length, where the type
  contribution is 0 without a type script and \<open>32 + 1 + len(args)\<close> of the type script
  when there is one: a present type script is charged no extra byte.
\<close>

theorem occupiedBytes_formula:
  "occupiedBytes output outputDataHex =
     8 + (32 + 1 + hexBytesLen (args (lock output)))
       + (case type_script output of
            None \<Rightarrow> 0
          | Some t \<Rightarrow> 32 + 1 + hexBytesLen (args t))
       + hexBytesLen outputDataHex"
  by (simp add: occupiedBytes_def scriptBytesForOccupied_def hexBytesLen_args_default
      split: option.split)

text \<open>
  The claim as stated fails on a deposit cell whose lock and type scripts have empty
  arguments: the source charges 82 bytes, the stated formula 83.
\<close>

theorem occupiedBytes_extra_byte_counterexample:
  "occupiedBytes
     \<lparr> capacity = 10200000000,
       lock = \<lparr> code_hash = ''0x9b'', hash_type = ''type'', args = ''0x'' \<rparr>,
       type_script = Some \<lparr> code_hash = ''0x82'', hash_type = ''type'', args = ''0x'' \<rparr> \<rparr>
     ''0x0000000000000000'' = 82
   \<and> spec_occupiedBytes
     \<lparr> capacity = 10200000000,
       lock = \<lparr> code_hash = ''0x9b'', hash_type = ''type'', args = ''0x'' \<rparr>,
       type_script = Some \<lparr> code_hash = ''0x82'', hash_type = ''type'', args = ''0x'' \<rparr> \<rparr>
     ''0x0000000000000000'' = 83"
  by (simp add: occupiedBytes_def spec_occupiedBytes_def scriptBytesForOccupied_def
      hexBytesLen_def strip0x_def)

subsection \<open>Header accounting field\<close>

lemma isHex_Cons [simp]: "isHex (c # h) = (hexDigit c \<noteq> None \<and> isHex h)"
  by (simp add: isHex_def)

lemma isHex_Nil [simp]: "isHex []"
  by (simp add: isHex_def)

lemma isHex_take: "isHex h \<Longrightarrow> isHex (take n h)"
  by (induction h arbitrary: n) (auto simp: take_Cons split: nat.splits)

lemma isHex_drop: "isHex h \<Longrightarrow> isHex (drop n h)"
  by (induction h arbitrary: n) (auto simp: drop_Cons split: nat.splits)

lemma length_bufferFromHex: "isHex h \<Longrightarrow> length (bufferFromHex h) = length h div 2"
  by (induction h rule: bufferFromHex.induct) auto

lemma bufferFromHex_take:
  "isHex h \<Longrightarrow> bufferFromHex (take (2 * n) h) = take n (bufferFromHex h)"
proof (induction h arbitrary: n rule: bufferFromHex.induct)
  case (1 a b rest)
  then show ?case by (cases n) auto
next
  case (2 a)
  then show ?case by (cases n) auto
qed auto

lemma bufferFromHex_drop:
  "isHex h \<Longrightarrow> bufferFromHex (drop (2 * n) h) = drop n (bufferFromHex h)"
proof (induction h arbitrary: n rule: bufferFromHex.induct)
  case (1 a b rest)
  then show ?case by (cases n) auto
next
  case (2 a)
  then show ?case by (cases n) auto
qed auto

lemma u64le_snoc: "u64le (bs @ [b]) = u64le bs + 2 ^ (8 * length bs) * uint b"
  by (induction bs) (auto simp: algebra_simps power_add)

lemma u64le_bounds: "0 \<le> u64le bs \<and> u64le bs < 2 ^ (8 * length bs)"
proof (induction bs)
  case Nil
  then show ?case by simp
next
  case (Cons b bs)
  have "uint b < 256" using uint_bounded [of b] by simp
  moreover have "0 \<le> uint b" by simp
  ultimately show ?case using Cons by (auto simp: power_add)
qed

lemma or_push_bit_disjoint:
  assumes "0 \<le> x" "x < 2 ^ n"
  shows "x OR push_bit n y = x + 2 ^ n * (y::int)"
proof -
  have t: "take_bit n x = x" using assms by (simp add: take_bit_int_eq_self)
  then have "x OR push_bit n y = concat_bit n x y" by (simp add: concat_bit_def)
  also have "\<dots> = x + push_bit n y" using t by (simp add: concat_bit_eq)
  finally show ?thesis by (simp add: push_bit_eq_mult mult.commute)
qed

text \<open>The loop of \<open>u64leFromHex16\<close> computes the little-endian value of the bytes.\<close>

lemma fold_or_u64le:
  "n \<le> length buf \<Longrightarrow>
   fold (\<lambda>i x. x OR push_bit (8 * i) (uint (buf ! i))) [0..<n] 0 = u64le (take n buf)"
proof (induction n)
  case 0
  then show ?case by simp
next
  case (Suc n)
  then have IH: "fold (\<lambda>i x. x OR push_bit (8 * i) (uint (buf ! i))) [0..<n] 0 = u64le (take n buf)"
    and n: "n < length buf" by simp_all
  have b: "0 \<le> u64le (take n buf)" "u64le (take n buf) < 2 ^ (8 * n)"
    using u64le_bounds [of "take n buf"] n by (simp_all add: min_def)
  show ?case
    using n by (simp add: IH take_Suc_conv_app_nth u64le_snoc or_push_bit_disjoint [OF b] min_def)
qed

lemma u64leFromHex16_eq:
  "isHex h \<Longrightarrow> length h = 16 \<Longrightarrow> u64leFromHex16 h = Inr (u64le (bufferFromHex h))"
  by (simp add: u64leFromHex16_def Let_def length_bufferFromHex fold_or_u64le)

lemma seg_bytes:
  assumes "isHex h"
  shows "bufferFromHex (seg h i) = take 8 (drop (8 * i) (bufferFromHex h))"
proof -
  have "bufferFromHex (seg h i) = bufferFromHex (take (2 * 8) (drop (2 * (8 * i)) h))"
    by (simp add: seg_def mult.commute)
  also have "\<dots> = take 8 (bufferFromHex (drop (2 * (8 * i)) h))"
    using assms by (intro bufferFromHex_take isHex_drop)
  also have "\<dots> = take 8 (drop (8 * i) (bufferFromHex h))"
    using assms by (simp only: bufferFromHex_drop)
  finally show ?thesis .
qed

lemma parseDao_wellformed:
  assumes "isHex h" "length h = 64"
  shows "parseDao (''0x'' @ h) = Inr \<lparr> dao_C = u64le (take 8 (bufferFromHex h)),
                                       dao_U = u64le (take 8 (drop 24 (bufferFromHex h))) \<rparr>"
proof -
  have s: "strip0x (''0x'' @ h) = h" by (simp add: strip0x_def)
  have h0: "isHex (seg h 0)" "length (seg h 0) = 16" and h3: "isHex (seg h 3)" "length (seg h 3) = 16"
    using assms by (simp_all add: seg_def isHex_take isHex_drop)
  show ?thesis
    unfolding parseDao_def s Let_def
    using assms seg_bytes [OF assms(1), of 0] seg_bytes [OF assms(1), of 3]
    by (simp add: u64leFromHex16_eq [OF h0] u64leFromHex16_eq [OF h3])
qed

lemma parseDaoAR_wellformed:
  assumes "isHex h" "length h = 64"
  shows "parseDaoAR (''0x'' @ h) = Inr (u64le (take 8 (drop 8 (bufferFromHex h))))"
    and "parseDaoS (''0x'' @ h) = Inr (u64le (take 8 (drop 16 (bufferFromHex h))))"
  using assms
  by (simp_all add: parseDaoAR_def parseDaoS_def readBigUInt64LE_def length_bufferFromHex)

text \<open>
  Claim C7, as amended. \<open>parseDao\<close>, the decoder of C and U, fails with its
  malformed-field error for every input that is not 64 hexadecimal characters (32 bytes)
  after the optional \<open>0x\<close>. \<open>parseDaoAR\<close> and \<open>parseDaoS\<close> check no length: they fail (with
  the buffer's range error) exactly when the decoded input has fewer than 16, respectively
  24, bytes. For every well-formed 32-byte input the decoders return the 64-bit
  little-endian unsigned integers C, AR, S and U read at the byte offsets 0, 8, 16 and 24.
\<close>

theorem dao_field_decoding:
  "(length (strip0x d) \<noteq> 64 \<longrightarrow> parseDao d = Inl MalformedField)
   \<and> (parseDaoAR d = Inl RangeError \<longleftrightarrow> length (bufferFromHex (drop 2 d)) < 16)
   \<and> (parseDaoS d = Inl RangeError \<longleftrightarrow> length (bufferFromHex (drop 2 d)) < 24)
   \<and> (isHex h \<and> length h = 64 \<longrightarrow>
        parseDao (''0x'' @ h) = Inr \<lparr> dao_C = u64le (take 8 (bufferFromHex h)),
                                       dao_U = u64le (take 8 (drop 24 (bufferFromHex h))) \<rparr>
      \<and> parseDaoAR (''0x'' @ h) = Inr (u64le (take 8 (drop 8 (bufferFromHex h))))
      \<and> parseDaoS (''0x'' @ h) = Inr (u64le (take 8 (drop 16 (bufferFromHex h)))))"
proof (intro conjI impI)
  show "parseDao d = Inl MalformedField" if "length (strip0x d) \<noteq> 64"
    using that by (simp add: parseDao_def)
  show "parseDaoAR d = Inl RangeError \<longleftrightarrow> length (bufferFromHex (drop 2 d)) < 16"
    by (simp add: parseDaoAR_def readBigUInt64LE_def)
  show "parseDaoS d = Inl RangeError \<longleftrightarrow> length (bufferFromHex (drop 2 d)) < 24"
    by (simp add: parseDaoS_def readBigUInt64LE_def)
next
  assume h: "isHex h \<and> length h = 64"
  then show "parseDao (''0x'' @ h) = Inr \<lparr> dao_C = u64le (take 8 (bufferFromHex h)),
                                       dao_U = u64le (take 8 (drop 24 (bufferFromHex h))) \<rparr>"
    by (simp only: parseDao_wellformed)
  from h show "parseDaoAR (''0x'' @ h) = Inr (u64le (take 8 (drop 8 (bufferFromHex h))))"
    by (simp only: parseDaoAR_wellformed)
  from h show "parseDaoS (''0x'' @ h) = Inr (u64le (take 8 (drop 16 (bufferFromHex h))))"
    by (simp only: parseDaoAR_wellformed)
qed

text \<open>
  A two-byte field is rejected by \<open>parseDao\<close>; the 32-byte field with C = 10000,
  AR = \<open>10 ^ 16\<close>, S = 5 and U = 1000 decodes to these values.
\<close>

theorem dao_field_decoding_witness:
  "length (strip0x ''0x1234'') \<noteq> 64 \<and> parseDao ''0x1234'' = Inl MalformedField
   \<and> isHex ''10270000000000000000c16ff28623000500000000000000e803000000000000''
   \<and> length ''10270000000000000000c16ff28623000500000000000000e803000000000000'' = 64
   \<and> parseDao ''0x10270000000000000000c16ff28623000500000000000000e803000000000000''
       = Inr \<lparr> dao_C = 10000, dao_U = 1000 \<rparr>
   \<and> parseDaoAR ''0x10270000000000000000c16ff28623000500000000000000e803000000000000''
       = Inr 10000000000000000
   \<and> parseDaoS ''0x10270000000000000000c16ff28623000500000000000000e803000000000000''
       = Inr 5"
proof -
  let ?h = "''10270000000000000000c16ff28623000500000000000000e803000000000000''"
  have a: "length (strip0x ''0x1234'') \<noteq> 64" by (simp add: strip0x_def)
  have b: "isHex ?h \<and> length ?h = 64" by (simp add: hexDigit_def)
  have c: "bufferFromHex ?h =
             [16, 39, 0, 0, 0, 0, 0, 0, 0, 0, 193, 111, 242, 134, 35, 0,
              5, 0, 0, 0, 0, 0, 0, 0, 232, 3, 0, 0, 0, 0, 0, 0]"
    by (simp add: hexDigit_def)
  have v: "u64le (take 8 (bufferFromHex ?h)) = 10000"
    "u64le (take 8 (drop 24 (bufferFromHex ?h))) = 1000"
    "u64le (take 8 (drop 8 (bufferFromHex ?h))) = 10000000000000000"
    "u64le (take 8 (drop 16 (bufferFromHex ?h))) = 5"
    unfolding c by simp_all
  have e: "''0x'' @ ?h = ''0x10270000000000000000c16ff28623000500000000000000e803000000000000''"
    by simp
  from dao_field_decoding [of "''0x1234''" ?h] a b
  have "parseDao ''0x1234'' = Inl MalformedField
      \<and> parseDao (''0x'' @ ?h) = Inr \<lparr> dao_C = u64le (take 8 (bufferFromHex ?h)),
                                       dao_U = u64le (take 8 (drop 24 (bufferFromHex ?h))) \<rparr>
      \<and> parseDaoAR (''0x'' @ ?h) = Inr (u64le (take 8 (drop 8 (bufferFromHex ?h))))
      \<and> parseDaoS (''0x'' @ ?h) = Inr (u64le (take 8 (drop 16 (bufferFromHex ?h))))"
    by blast
  then show ?thesis
    unfolding v e using a b by blast
qed

text \<open>
  The claim as stated fails on a field of 33 bytes: \<open>parseDaoAR\<close> does not reject it and
  returns the integer at offset 8.
\<close>

theorem parseDaoAR_accepts_33_bytes_counterexample:
  "length (bufferFromHex (drop 2
      ''0x10270000000000000000c16ff28623000500000000000000e803000000000000ff'')) = 33
   \<and> parseDaoAR ''0x10270000000000000000c16ff28623000500000000000000e803000000000000ff''
       = Inr 10000000000000000"
  by (simp add: parseDaoAR_def readBigUInt64LE_def hexDigit_def)

subsection \<open>Header scan\<close>

lemma parseDao_nonneg:
  assumes "parseDao d = Inr cu"
  shows "0 \<le> dao_C cu \<and> 0 \<le> dao_U cu"
proof -
  have u: "0 \<le> x" if "u64leFromHex16 s = Inr x" for s x
  proof -
    from that have l: "8 \<le> length (bufferFromHex s)"
      and x: "x = fold (\<lambda>i x. x OR push_bit (8 * i) (uint (bufferFromHex s ! i))) [0..<8] 0"
      by (auto simp: u64leFromHex16_def Let_def split: if_splits)
    from fold_or_u64le [OF l] x u64le_bounds show ?thesis by simp
  qed
  from assms show ?thesis
    by (auto simp: parseDao_def Let_def split: if_splits sum.splits dest: u)
qed

lemma scan_window_append:
  "scan_window st (xs @ ys) = (case scan_window st xs of Inl err \<Rightarrow> Inl err | Inr st' \<Rightarrow> scan_window st' ys)"
proof (induction xs arbitrary: st)
  case Nil
  show ?case by simp
next
  case (Cons x xs)
  show ?case
  proof (cases x)
    case None
    then show ?thesis by (simp split: sum.splits)
  next
    case (Some c)
    with Cons show ?thesis by (simp split: sum.splits)
  qed
qed

lemma upto_split_window:
  assumes "cur \<le> m" "m \<le> e"
  shows "[cur .. e] = [cur .. m] @ [m + 1 .. e]"
  using assms by (metis upto_split2 upto_rec1 order_refl append.assoc) 

lemma scan_window_no_worker:
  assumes "a \<le> b"
  shows "scan_window st (map (\<lambda>n. None) [a .. b])
           = (case parseDao (hd_dao (prevHeader st)) of Inl err \<Rightarrow> Inl err | Inr cu \<Rightarrow> Inl TypeError)"
  using assms by (simp add: upto_rec1 [of a b])

lemma scan_from_is_scan_window:
  "scan_from g c w e st cur = Inr st' \<Longrightarrow>
     scan_window st (map (\<lambda>n. Some (g n)) [cur .. e]) = Inr st'"
proof (induction g c w e st cur rule: scan_from.induct)
  case (1 g c w e st cur)
  show ?case
  proof (cases "cur \<le> e")
    case False
    with "1.prems" show ?thesis by (subst (asm) scan_from.simps) simp
  next
    case True
    let ?m = "min e (cur + max 1 (c * w) - 1)"
    have m: "cur \<le> ?m" "?m \<le> e" using True by auto
    have sp: "[cur .. e] = [cur .. ?m] @ [?m + 1 .. e]" using m by (rule upto_split_window)
    from "1.prems" True obtain st1 where
      w1: "scan_window st (fetch_window g c cur ?m) = Inr st1"
      and r: "scan_from g c w e st1 (?m + 1) = Inr st'"
      by (subst (asm) scan_from.simps) (auto split: sum.splits)
    have c1: "1 \<le> c"
    proof (rule ccontr)
      assume "\<not> 1 \<le> c"
      then have "fetch_window g c cur ?m = map (\<lambda>n. None) [cur .. ?m]"
        by (simp add: fetch_window_def)
      with w1 scan_window_no_worker [OF m(1), of st] show False
        by (simp split: sum.splits)
    qed
    then have w2: "scan_window st (map (\<lambda>n. Some (g n)) [cur .. ?m]) = Inr st1"
      using w1 by (simp add: fetch_window_def)
    from "1.IH" [OF True w1 r]
    have "scan_window st1 (map (\<lambda>n. Some (g n)) [?m + 1 .. e]) = Inr st'" .
    with w2 show ?thesis by (subst sp) (simp add: scan_window_append)
  qed
qed

lemma block_step_Inr:
  "block_step st c = Inr st' \<Longrightarrow>
     prevHeader st' = c \<and>
     totalMinerSecondary st' = totalMinerSecondary st + projr (minerSecondary (prevHeader st) c)"
  by (auto simp: block_step_def split: sum.splits)

lemma scan_window_total:
  "scan_window st (map (\<lambda>n. Some (g n)) [cur .. e]) = Inr st' \<Longrightarrow> prevHeader st = g (cur - 1) \<Longrightarrow>
   totalMinerSecondary st' =
     totalMinerSecondary st + (\<Sum>i = cur..e. projr (minerSecondary (g (i - 1)) (g i)))"
proof (induction "nat (e + 1 - cur)" arbitrary: cur st)
  case 0
  then have "e < cur" by simp
  with 0 show ?case by simp
next
  case (Suc n)
  then have le: "cur \<le> e" by simp
  then have u: "[cur .. e] = cur # [cur + 1 .. e]" by (simp add: upto_rec1)
  from Suc.prems(1) obtain st1 where s1: "block_step st (g cur) = Inr st1"
    and r: "scan_window st1 (map (\<lambda>n. Some (g n)) [cur + 1 .. e]) = Inr st'"
    unfolding u by (auto split: sum.splits)
  from block_step_Inr [OF s1] Suc.prems(2)
  have p: "prevHeader st1 = g (cur + 1 - 1)"
    and t1: "totalMinerSecondary st1 = totalMinerSecondary st + projr (minerSecondary (g (cur - 1)) (g cur))"
    by simp_all
  have n: "n = nat (e + 1 - (cur + 1))" using Suc.hyps(2) by simp
  from Suc.hyps(1) [OF n r p]
  have "totalMinerSecondary st' = totalMinerSecondary st1 + (\<Sum>i = cur + 1..e. projr (minerSecondary (g (i - 1)) (g i)))" .
  moreover have "{cur..e} = insert cur {cur + 1..e}" using le by auto
  ultimately show ?case using t1 by simp
qed

lemma main_secondary_total:
  assumes "main_secondary g tip c w start end = Inr tot"
  shows "tot = (\<Sum>i = start..end. projr (minerSecondary (g (i - 1)) (g i)))"
proof -
  from assms obtain st where
    s: "scan_from g c w end \<lparr> prevHeader = g (start - 1), totalMinerSecondary = 0 \<rparr> start = Inr st"
    and t: "tot = totalMinerSecondary st"
    by (auto simp: main_secondary_def split: if_splits sum.splits)
  from s have "scan_window \<lparr> prevHeader = g (start - 1), totalMinerSecondary = 0 \<rparr>
                 (map (\<lambda>n. Some (g n)) [start .. end]) = Inr st"
    by (rule scan_from_is_scan_window)
  from scan_window_total [OF this] t show ?thesis by simp
qed

text \<open>
  Without a worker no header is fetched, and the scan of a range that is not empty ends
  with an error at its first block.
\<close>

lemma main_secondary_no_worker:
  assumes "c < 1" and "1 \<le> start" and "start \<le> end" and "end \<le> tip"
  shows "main_secondary g tip c w start end
           = (case parseDao (hd_dao (g (start - 1))) of Inl err \<Rightarrow> Inl err | Inr cu \<Rightarrow> Inl TypeError)"
proof -
  let ?m = "min end (start + max 1 (c * w) - 1)"
  have m: "start \<le> ?m" using assms(3) by auto
  have "fetch_window g c start ?m = map (\<lambda>n. None) [start .. ?m]"
    using assms(1) by (simp add: fetch_window_def)
  then show ?thesis
    using assms(2-) scan_window_no_worker [OF m]
    by (subst main_secondary_def, subst scan_from.simps) (simp split: sum.splits)
qed

lemma minerSecondary_own_dao:
  "minerSecondary prev (cur\<lparr>hd_dao := d\<rparr>) = minerSecondary prev cur"
  by (simp add: minerSecondary_def cong: sum.case_cong)

lemma minerSecondary_valid:
  assumes "parseDao (hd_dao prev) = Inr cu" and "dao_C cu \<noteq> 0"
    and "hd_epoch cur = Some e" and "0 < ep_length (parseEpochPacked e)"
  shows "\<exists>s. perBlockSecondary (ep_length (parseEpochPacked e)) (ep_index (parseEpochPacked e)) = Inr s
           \<and> minerSecondary prev cur = Inr ((s * dao_U cu) div dao_C cu)"
proof -
  let ?L = "ep_length (parseEpochPacked e)" and ?idx = "ep_index (parseEpochPacked e)"
  let ?s = "SECONDARY_EPOCH_REWARD div ?L + (if ?idx < SECONDARY_EPOCH_REWARD mod ?L then 1 else 0)"
  have s: "perBlockSecondary ?L ?idx = Inr ?s" using assms(4) by (rule perBlockSecondary_pos)
  have "0 \<le> SECONDARY_EPOCH_REWARD div ?L"
    using assms(4) by (simp add: SECONDARY_EPOCH_REWARD_def pos_imp_zdiv_nonneg_iff)
  then have s0: "0 \<le> ?s" by simp
  from parseDao_nonneg [OF assms(1)] assms(2) have c: "0 < dao_C cu" and u: "0 \<le> dao_U cu" by simp_all
  have "bigint_div (?s * dao_U cu) (dao_C cu) = Inr ((?s * dao_U cu) div dao_C cu)"
  proof -
    have "0 \<le> ?s * dao_U cu" using s0 u by simp
    then show ?thesis using c by (simp add: bigint_div_def sgn_if)
  qed
  then have "minerSecondary prev cur = Inr ((?s * dao_U cu) div dao_C cu)"
    using assms s by (simp add: minerSecondary_def Let_def)
  with s show ?thesis by blast
qed


text \<open>
  Claim C3, as amended. For every scanned block whose previous header's accounting field
  decodes with a circulating capacity C other than zero, and whose own epoch field has a
  positive length, the miner's secondary payout is
  \<open>floor (perBlockSecondary * U / C)\<close> with U and C decoded from the previous block's
  header; the payout does not depend on the block's own accounting field; the block
  becomes the previous header of the next one; and the total of a completed scan of
  \<open>start .. end\<close> is the sum over the blocks \<open>i\<close> of the payout computed from the headers
  \<open>i - 1\<close> and \<open>i\<close>.
\<close>

theorem miner_secondary_one_block_lag:
  assumes "parseDao (hd_dao prev) = Inr cu" and "dao_C cu \<noteq> 0"
    and "hd_epoch cur = Some e" and "0 < ep_length (parseEpochPacked e)"
  shows "(\<exists>s. perBlockSecondary (ep_length (parseEpochPacked e)) (ep_index (parseEpochPacked e)) = Inr s
            \<and> minerSecondary prev cur = Inr ((s * dao_U cu) div dao_C cu)
            \<and> block_step \<lparr> prevHeader = prev, totalMinerSecondary = t \<rparr> cur
                = Inr \<lparr> prevHeader = cur, totalMinerSecondary = t + (s * dao_U cu) div dao_C cu \<rparr>)
       \<and> minerSecondary prev (cur\<lparr>hd_dao := d\<rparr>) = minerSecondary prev cur
       \<and> (main_secondary g tip CONCURRENCY WINDOW_MULT start end = Inr tot \<longrightarrow>
            tot = (\<Sum>i = start..end. projr (minerSecondary (g (i - 1)) (g i))))"
proof (intro conjI impI)
  from minerSecondary_valid [OF assms] obtain s where
    s: "perBlockSecondary (ep_length (parseEpochPacked e)) (ep_index (parseEpochPacked e)) = Inr s"
    and m: "minerSecondary prev cur = Inr ((s * dao_U cu) div dao_C cu)" by blast
  from m have "block_step \<lparr> prevHeader = prev, totalMinerSecondary = t \<rparr> cur
                = Inr \<lparr> prevHeader = cur, totalMinerSecondary = t + (s * dao_U cu) div dao_C cu \<rparr>"
    by (simp add: block_step_def)
  with s m show "\<exists>s. perBlockSecondary (ep_length (parseEpochPacked e)) (ep_index (parseEpochPacked e)) = Inr s
            \<and> minerSecondary prev cur = Inr ((s * dao_U cu) div dao_C cu)
            \<and> block_step \<lparr> prevHeader = prev, totalMinerSecondary = t \<rparr> cur
                = Inr \<lparr> prevHeader = cur, totalMinerSecondary = t + (s * dao_U cu) div dao_C cu \<rparr>"
    by blast
  show "minerSecondary prev (cur\<lparr>hd_dao := d\<rparr>) = minerSecondary prev cur"
    by (rule minerSecondary_own_dao)
  show "tot = (\<Sum>i = start..end. projr (minerSecondary (g (i - 1)) (g i)))"
    if "main_secondary g tip CONCURRENCY WINDOW_MULT start end = Inr tot"
    using that by (rule main_secondary_total)
qed

lemma sample_epoch_fields:
  "parseEpochPacked 1979121097774638 = \<lparr> ep_number = 5678, ep_index = 10, ep_length = 1800 \<rparr>"
  by (simp add: parseEpochPacked_def drop_bit_eq_div lit_mask24 lit_mask16 flip: take_bit_eq_mask)

lemma sample_prev_header_dao:
  "parseDao (hd_dao sample_prev_header) = Inr \<lparr> dao_C = 10000, dao_U = 1000 \<rparr>"
  by (simp add: sample_prev_header_def parseDao_def strip0x_def seg_def u64leFromHex16_def
      hexDigit_def upt_rec)

lemma sample_zero_header_dao:
  "parseDao (hd_dao sample_zero_header) = Inr \<lparr> dao_C = 0, dao_U = 0 \<rparr>"
  by (simp add: sample_zero_header_def parseDao_def strip0x_def seg_def u64leFromHex16_def
      hexDigit_def upt_rec)

lemma sample_pbs: "perBlockSecondary 1800 10 = Inr 34094368341"
  by (simp add: perBlockSecondary_def bigint_div_def bigint_rem_def SECONDARY_EPOCH_REWARD_def)

lemma sample_main:
  "main_secondary (\<lambda>i. if i = 0 then sample_prev_header else sample_cur_header) 1 16 200 1 1
     = Inr 3409436834"
  by (simp add: main_secondary_def scan_from.simps fetch_window_def block_step_def minerSecondary_def
      sample_prev_header_dao sample_epoch_fields sample_pbs bigint_div_def sample_cur_header_def)

text \<open>
  The sample block 10 of epoch 5678 after a header with C = 10000 and U = 1000: the
  payout is \<open>floor (34094368341 * 1000 / 10000)\<close>.
\<close>

theorem miner_secondary_one_block_lag_witness:
  "parseDao (hd_dao sample_prev_header) = Inr \<lparr> dao_C = 10000, dao_U = 1000 \<rparr>
   \<and> dao_C \<lparr> dao_C = 10000, dao_U = 1000 \<rparr> \<noteq> 0
   \<and> hd_epoch sample_cur_header = Some 1979121097774638
   \<and> 0 < ep_length (parseEpochPacked 1979121097774638)
   \<and> perBlockSecondary (ep_length (parseEpochPacked 1979121097774638))
        (ep_index (parseEpochPacked 1979121097774638)) = Inr 34094368341
   \<and> minerSecondary sample_prev_header sample_cur_header = Inr 3409436834
   \<and> block_step \<lparr> prevHeader = sample_prev_header, totalMinerSecondary = 7 \<rparr> sample_cur_header
        = Inr \<lparr> prevHeader = sample_cur_header, totalMinerSecondary = 3409436841 \<rparr>
   \<and> minerSecondary sample_prev_header (sample_cur_header\<lparr>hd_dao := ''0x''\<rparr>) = Inr 3409436834
   \<and> main_secondary (\<lambda>i. if i = 0 then sample_prev_header else sample_cur_header) 1 16 200 1 1
        = Inr 3409436834
   \<and> (3409436834::int)
        = (\<Sum>i = (1::int)..1. projr (minerSecondary
              ((\<lambda>i. if i = 0 then sample_prev_header else sample_cur_header) (i - 1))
              ((\<lambda>i. if i = 0 then sample_prev_header else sample_cur_header) i)))"
proof -
  let ?g = "\<lambda>i::int. if i = 0 then sample_prev_header else sample_cur_header"
  have a: "parseDao (hd_dao sample_prev_header) = Inr \<lparr> dao_C = 10000, dao_U = 1000 \<rparr>"
    by (rule sample_prev_header_dao)
  have b: "dao_C \<lparr> dao_C = 10000, dao_U = 1000 \<rparr> \<noteq> 0" by simp
  have c: "hd_epoch sample_cur_header = Some 1979121097774638"
    by (simp add: sample_cur_header_def)
  have d: "0 < ep_length (parseEpochPacked 1979121097774638)"
    by (simp add: sample_epoch_fields)
  have m: "main_secondary ?g 1 16 200 1 1 = Inr 3409436834" by (rule sample_main)
  from miner_secondary_one_block_lag [OF a b c d, of 7 "''0x''" ?g 1 16 200 1 1 3409436834] m
  have "(\<exists>s. perBlockSecondary (ep_length (parseEpochPacked 1979121097774638))
               (ep_index (parseEpochPacked 1979121097774638)) = Inr s
            \<and> minerSecondary sample_prev_header sample_cur_header
                = Inr ((s * dao_U \<lparr> dao_C = 10000, dao_U = 1000 \<rparr>) div dao_C \<lparr> dao_C = 10000, dao_U = 1000 \<rparr>)
            \<and> block_step \<lparr> prevHeader = sample_prev_header, totalMinerSecondary = 7 \<rparr> sample_cur_header
                = Inr \<lparr> prevHeader = sample_cur_header,
                        totalMinerSecondary = 7 + (s * dao_U \<lparr> dao_C = 10000, dao_U = 1000 \<rparr>)
                                                   div dao_C \<lparr> dao_C = 10000, dao_U = 1000 \<rparr> \<rparr>)"
    and e: "minerSecondary sample_prev_header (sample_cur_header\<lparr>hd_dao := ''0x''\<rparr>)
          = minerSecondary sample_prev_header sample_cur_header"
    and f: "(3409436834::int) = (\<Sum>i = 1..1. projr (minerSecondary (?g (i - 1)) (?g i)))"
    by blast+
  then obtain s where
    s: "perBlockSecondary (ep_length (parseEpochPacked 1979121097774638))
               (ep_index (parseEpochPacked 1979121097774638)) = Inr s"
    and ms: "minerSecondary sample_prev_header sample_cur_header
                = Inr ((s * dao_U \<lparr> dao_C = 10000, dao_U = 1000 \<rparr>) div dao_C \<lparr> dao_C = 10000, dao_U = 1000 \<rparr>)"
    and bs: "block_step \<lparr> prevHeader = sample_prev_header, totalMinerSecondary = 7 \<rparr> sample_cur_header
                = Inr \<lparr> prevHeader = sample_cur_header,
                        totalMinerSecondary = 7 + (s * dao_U \<lparr> dao_C = 10000, dao_U = 1000 \<rparr>)
                                                   div dao_C \<lparr> dao_C = 10000, dao_U = 1000 \<rparr> \<rparr>"
    by blast
  from s have sv: "s = 34094368341" by (simp add: sample_epoch_fields sample_pbs)
  from ms have ms': "minerSecondary sample_prev_header sample_cur_header = Inr 3409436834"
    unfolding sv by simp
  from bs have bs': "block_step \<lparr> prevHeader = sample_prev_header, totalMinerSecondary = 7 \<rparr> sample_cur_header
        = Inr \<lparr> prevHeader = sample_cur_header, totalMinerSecondary = 3409436841 \<rparr>"
    unfolding sv by simp
  from s have s': "perBlockSecondary (ep_length (parseEpochPacked 1979121097774638))
        (ep_index (parseEpochPacked 1979121097774638)) = Inr 34094368341"
    unfolding sv .
  from e ms' have e': "minerSecondary sample_prev_header (sample_cur_header\<lparr>hd_dao := ''0x''\<rparr>) = Inr 3409436834"
    by simp
  show ?thesis by (intro conjI a b c d s' ms' bs' e' m f)
qed

text \<open>
  The claim as stated fails when the previous header's circulating capacity is zero: the
  division raises and the scan ends with the error, no payout being computed.
\<close>

theorem miner_secondary_zero_capacity_counterexample:
  "parseDao (hd_dao sample_zero_header) = Inr \<lparr> dao_C = 0, dao_U = 0 \<rparr>
   \<and> minerSecondary sample_zero_header sample_cur_header = Inl RangeError
   \<and> main_secondary (\<lambda>i. if i = 0 then sample_zero_header else sample_cur_header) 1 16 200 1 1
        = Inl RangeError"
  by (simp add: main_secondary_def scan_from.simps fetch_window_def block_step_def minerSecondary_def
      sample_zero_header_dao sample_epoch_fields sample_pbs bigint_div_def sample_cur_header_def)

subsection \<open>Unclaimed reward of a deposit cell\<close>



lemma reward_of_same_rate:
  assumes "0 < (AR_i::int)"
  shows "(free * AR_i) div AR_i - free = 0"
  using assms by simp


lemma cache_ok_upd:
  "cache_ok headerDao cache \<Longrightarrow> parseDaoAR (headerDao k) = Inr v \<Longrightarrow> cache_ok headerDao (cache(k \<mapsto> v))"
  by (simp add: cache_ok_def)







lemma sample_tip_AR: "parseDaoAR sample_tip_dao = Inr 10500000000000000"
  by (simp add: sample_tip_dao_def parseDaoAR_def readBigUInt64LE_def hexDigit_def)

lemma sample_deposit_AR: "parseDaoAR sample_deposit_dao = Inr 10000000000000000"
  by (simp add: sample_deposit_dao_def parseDaoAR_def readBigUInt64LE_def hexDigit_def)


lemma sample_tip_S: "parseDaoS sample_tip_dao = Inr 5"
  by (simp add: sample_tip_dao_def parseDaoS_def readBigUInt64LE_def hexDigit_def)

lemma sample_cell_sel:
  "output_data (sample_cell cap d) = d"
  "block_number (sample_cell cap d) = ''0x1000''"
  "capacity (lc_output (sample_cell cap d)) = cap"
  by (simp_all add: sample_cell_def)

lemma sample_cell_occupied:
  "occupiedCapacity (lc_output (sample_cell cap DEPOSIT_DATA)) DEPOSIT_DATA = 8200000000"
  by (simp add: sample_cell_def DEPOSIT_DATA_def occupiedCapacity_def occupiedBytes_def
      scriptBytesForOccupied_def hexBytesLen_def strip0x_def SHANNONS_PER_CKB_def)




subsection \<open>Malformed prepare-withdraw data\<close>

lemma scan_cells_append:
  "scan_cells step st (xs @ ys) =
     (case scan_cells step st xs of Inl err \<Rightarrow> Inl err | Inr st' \<Rightarrow> scan_cells step st' ys)"
  by (induction xs arbitrary: st) (auto split: sum.splits)

lemma parsePrepare_malformed:
  assumes "d = [] \<or> d = ''0x'' \<or> length (strip0x d) \<noteq> 16"
  shows "parsePrepareBlockNumberHex d = Inl InvalidCellShape"
  using assms by (auto simp: parsePrepareBlockNumberHex_def Let_def)

lemma prepare_branch_malformed:
  assumes "output_data c = [] \<or> output_data c = ''0x'' \<or> length (strip0x (output_data c)) \<noteq> 16"
  shows "prepare_branch headerDao free st c = Inl InvalidCellShape"
  by (simp add: prepare_branch_def parsePrepare_malformed [OF assms])

lemma occupiedCapacity_molecule_error:
  "occupiedCapacity_molecule output dataHex = Inl e \<Longrightarrow>
     e = RangeError \<and> odd (cellSizeBytes2 output dataHex)"
  by (auto simp: occupiedCapacity_molecule_def Let_def split: if_splits)

text \<open>
  Claim C8, as amended. A scanned item that is not a deposit cell and whose
  prepare-withdraw data is malformed (empty, or not 8 bytes long) is not passed over.
  In the scan of part 000, \<open>parsePrepareBlockNumberHex\<close> raises and the scan ends with
  that error, whatever follows the item. The scan of part 001 first computes the item's
  occupied capacity by its own molecule sizing. If that computation raises (the size is
  not a whole number of bytes, as for data with an odd number of hexadecimal digits), the
  scan ends with \<open>RangeError\<close>. Otherwise, if the capacity exceeds that occupied capacity,
  \<open>parsePrepareBlockNumberHex\<close> raises and the scan ends with its error. Otherwise the
  item is skipped before its data is looked at, and changes only the sum of capacities.
\<close>

theorem malformed_prepare_data_aborts:
  assumes "output_data c \<noteq> DEPOSIT_DATA"
    and "output_data c = [] \<or> output_data c = ''0x'' \<or> length (strip0x (output_data c)) \<noteq> 16"
  shows "holders_step headerDao AR st c = Inl InvalidCellShape
     \<and> (scan_cells (holders_step headerDao AR) st0 pre = Inr st \<longrightarrow>
          scan_cells (holders_step headerDao AR) st0 (pre @ c # rest) = Inl InvalidCellShape)
     \<and> (occupiedCapacity_molecule (lc_output c) (output_data c) = Inl e \<longrightarrow>
          e = RangeError \<and> odd (cellSizeBytes2 (lc_output c) (output_data c))
          \<and> unclaimed_step headerDao AR st c = Inl RangeError
          \<and> (scan_cells (unclaimed_step headerDao AR) st0 pre = Inr st \<longrightarrow>
               scan_cells (unclaimed_step headerDao AR) st0 (pre @ c # rest) = Inl RangeError))
     \<and> (occupiedCapacity_molecule (lc_output c) (output_data c) = Inr occ
          \<and> 0 < capacity (lc_output c) - occ \<longrightarrow>
          unclaimed_step headerDao AR st c = Inl InvalidCellShape
          \<and> (scan_cells (unclaimed_step headerDao AR) st0 pre = Inr st \<longrightarrow>
               scan_cells (unclaimed_step headerDao AR) st0 (pre @ c # rest) = Inl InvalidCellShape))
     \<and> (occupiedCapacity_molecule (lc_output c) (output_data c) = Inr occ
          \<and> capacity (lc_output c) - occ \<le> 0 \<longrightarrow>
          unclaimed_step headerDao AR st c
            = Inr (st\<lparr> u_daoDeposit := u_daoDeposit st + capacity (lc_output c) \<rparr>)
          \<and> (scan_cells (unclaimed_step headerDao AR) st0 pre = Inr st \<longrightarrow>
               scan_cells (unclaimed_step headerDao AR) st0 (pre @ c # rest)
                 = scan_cells (unclaimed_step headerDao AR)
                     (st\<lparr> u_daoDeposit := u_daoDeposit st + capacity (lc_output c) \<rparr>) rest))"
proof -
  have h: "holders_step headerDao AR st c = Inl InvalidCellShape"
    using assms(1) by (simp add: holders_step_def Let_def prepare_branch_malformed [OF assms(2)])
  have hs: "scan_cells (holders_step headerDao AR) st0 (pre @ c # rest) = Inl InvalidCellShape"
    if "scan_cells (holders_step headerDao AR) st0 pre = Inr st"
    using that h by (simp add: scan_cells_append)
  have r: "e = RangeError \<and> odd (cellSizeBytes2 (lc_output c) (output_data c))
          \<and> unclaimed_step headerDao AR st c = Inl RangeError"
    if "occupiedCapacity_molecule (lc_output c) (output_data c) = Inl e"
    using that occupiedCapacity_molecule_error [OF that]
    by (simp add: unclaimed_step_def Let_def)
  have rs: "scan_cells (unclaimed_step headerDao AR) st0 (pre @ c # rest) = Inl RangeError"
    if "occupiedCapacity_molecule (lc_output c) (output_data c) = Inl e"
      and "scan_cells (unclaimed_step headerDao AR) st0 pre = Inr st"
    using that(2) r [OF that(1)] by (simp add: scan_cells_append)
  have u: "unclaimed_step headerDao AR st c = Inl InvalidCellShape"
    if "occupiedCapacity_molecule (lc_output c) (output_data c) = Inr occ \<and> 0 < capacity (lc_output c) - occ"
    using that assms(1)
    by (simp add: unclaimed_step_def Let_def prepare_branch_malformed [OF assms(2)])
  have us: "scan_cells (unclaimed_step headerDao AR) st0 (pre @ c # rest) = Inl InvalidCellShape"
    if "occupiedCapacity_molecule (lc_output c) (output_data c) = Inr occ \<and> 0 < capacity (lc_output c) - occ"
      and "scan_cells (unclaimed_step headerDao AR) st0 pre = Inr st"
    using that(2) u [OF that(1)] by (simp add: scan_cells_append)
  have sk: "unclaimed_step headerDao AR st c
            = Inr (st\<lparr> u_daoDeposit := u_daoDeposit st + capacity (lc_output c) \<rparr>)"
    if "occupiedCapacity_molecule (lc_output c) (output_data c) = Inr occ \<and> capacity (lc_output c) - occ \<le> 0"
    using that by (simp add: unclaimed_step_def Let_def)
  have sks: "scan_cells (unclaimed_step headerDao AR) st0 (pre @ c # rest)
                 = scan_cells (unclaimed_step headerDao AR)
                     (st\<lparr> u_daoDeposit := u_daoDeposit st + capacity (lc_output c) \<rparr>) rest"
    if "occupiedCapacity_molecule (lc_output c) (output_data c) = Inr occ \<and> capacity (lc_output c) - occ \<le> 0"
      and "scan_cells (unclaimed_step headerDao AR) st0 pre = Inr st"
    using that(2) sk [OF that(1)] by (simp add: scan_cells_append)
  from h hs r rs u us sk sks show ?thesis by blast
qed

lemma sample_bad_molecule:
  "occupiedCapacity_molecule (lc_output (sample_cell cap ''0x1234'')) ''0x1234'' = Inr 13300000000"
  by (simp add: sample_cell_def occupiedCapacity_molecule_def cellSizeBytes2_def
      scriptSizeBytes2_def hexBytesLen2_def SHANNONS_PER_BYTE_def)

lemma sample_odd_molecule:
  "occupiedCapacity_molecule (lc_output (sample_cell cap ''0x123'')) ''0x123'' = Inl RangeError"
  by (simp add: sample_cell_def occupiedCapacity_molecule_def cellSizeBytes2_def
      scriptSizeBytes2_def hexBytesLen2_def)

lemma sample_bad_free:
  "freeCapacity (lc_output (sample_cell 10200000000 ''0x1234'')) ''0x1234'' = 2600000000"
  by (simp add: freeCapacity_def sample_cell_def occupiedCapacity_def occupiedBytes_def
      scriptBytesForOccupied_def hexBytesLen_def strip0x_def SHANNONS_PER_CKB_def)

lemma sample_good_holders_step:
  "holders_step (\<lambda>bn. sample_deposit_dao) 10500000000000000 new_unclaimed_totals
        (sample_cell 10200000000 DEPOSIT_DATA)
      = Inr \<lparr> u_daoDeposit = 0, unclaimedDeposit = 100000000, unclaimedPrepare = 0,
              cntDeposit = 1, cntPrepare = 0, unclaimedDepositCapacity = 10200000000,
              u_arCache = [''0x1000'' \<mapsto> 10000000000000000] \<rparr>"
  by (simp add: holders_step_def Let_def sample_cell_sel sample_cell_occupied deposit_branch_def
        getARByBlockNumberHex_def new_unclaimed_totals_def sample_deposit_AR reward_of_def
        bigint_div_def)

lemma sample_bad_holders_step:
  "holders_step hdr AR st (sample_cell cap ''0x1234'') = Inl InvalidCellShape"
  by (simp add: holders_step_def Let_def sample_cell_sel DEPOSIT_DATA_def prepare_branch_def
      parsePrepareBlockNumberHex_def strip0x_def)

text \<open>
  DAO cells with the two bytes \<open>0x1234\<close> as data, and one with the three digits
  \<open>0x123\<close>. The cell of capacity 10200000000 has 2600000000 of
  \<open>capacity - occupiedCapacity(cell)\<close>, and the scan of part 000 ends at it; the scan
  of part 001 sizes it at 133 bytes and skips it. The cell of capacity 15900000000
  exceeds that size, and the scan of part 001 ends at it.
\<close>

theorem malformed_prepare_data_aborts_witness:
  "output_data (sample_cell 10200000000 ''0x1234'') \<noteq> DEPOSIT_DATA
   \<and> length (strip0x (output_data (sample_cell 10200000000 ''0x1234''))) \<noteq> 16
   \<and> freeCapacity (lc_output (sample_cell 10200000000 ''0x1234'')) ''0x1234'' = 2600000000
   \<and> holders_step (\<lambda>bn. sample_deposit_dao) 10500000000000000 new_unclaimed_totals
        (sample_cell 10200000000 ''0x1234'') = Inl InvalidCellShape
   \<and> scan_cells (holders_step (\<lambda>bn. sample_deposit_dao) 10500000000000000) new_unclaimed_totals
        ([sample_cell 10200000000 DEPOSIT_DATA] @ sample_cell 10200000000 ''0x1234''
          # [sample_cell 10200000000 DEPOSIT_DATA]) = Inl InvalidCellShape
   \<and> occupiedCapacity_molecule (lc_output (sample_cell 15900000000 ''0x1234'')) ''0x1234''
        = Inr 13300000000
   \<and> unclaimed_step (\<lambda>bn. sample_deposit_dao) 10500000000000000 new_unclaimed_totals
        (sample_cell 15900000000 ''0x1234'') = Inl InvalidCellShape
   \<and> unclaimed_step (\<lambda>bn. sample_deposit_dao) 10500000000000000 new_unclaimed_totals
        (sample_cell 10200000000 ''0x1234'')
        = Inr (new_unclaimed_totals\<lparr> u_daoDeposit := 10200000000 \<rparr>)
   \<and> occupiedCapacity_molecule (lc_output (sample_cell 15900000000 ''0x123'')) ''0x123''
        = Inl RangeError
   \<and> unclaimed_step (\<lambda>bn. sample_deposit_dao) 10500000000000000 new_unclaimed_totals
        (sample_cell 15900000000 ''0x123'') = Inl RangeError"
proof -
  let ?hd = "\<lambda>bn::string. sample_deposit_dao"
  let ?AR = "10500000000000000::int"
  let ?good = "sample_cell 10200000000 DEPOSIT_DATA"
  let ?st1 = "\<lparr> u_daoDeposit = 0, unclaimedDeposit = 100000000, unclaimedPrepare = 0,
              cntDeposit = 1, cntPrepare = 0, unclaimedDepositCapacity = 10200000000,
              u_arCache = [''0x1000'' \<mapsto> 10000000000000000] \<rparr>"
  have nd: "output_data (sample_cell cap ''0x1234'') \<noteq> DEPOSIT_DATA" for cap
    by (simp add: sample_cell_sel DEPOSIT_DATA_def)
  have ln: "length (strip0x (output_data (sample_cell cap ''0x1234''))) \<noteq> 16" for cap
    by (simp add: sample_cell_sel strip0x_def)
  have mal: "output_data (sample_cell cap ''0x1234'') = []
      \<or> output_data (sample_cell cap ''0x1234'') = ''0x''
      \<or> length (strip0x (output_data (sample_cell cap ''0x1234''))) \<noteq> 16" for cap
    using ln by blast
  have nd3: "output_data (sample_cell 15900000000 ''0x123'') \<noteq> DEPOSIT_DATA"
    by (simp add: sample_cell_sel DEPOSIT_DATA_def)
  have mal3: "output_data (sample_cell 15900000000 ''0x123'') = []
      \<or> output_data (sample_cell 15900000000 ''0x123'') = ''0x''
      \<or> length (strip0x (output_data (sample_cell 15900000000 ''0x123''))) \<noteq> 16"
    by (simp add: sample_cell_sel strip0x_def)
  have pre: "scan_cells (holders_step ?hd ?AR) new_unclaimed_totals [?good] = Inr ?st1"
    by (simp add: sample_good_holders_step)
  have occ: "occupiedCapacity_molecule (lc_output (sample_cell cap ''0x1234''))
               (output_data (sample_cell cap ''0x1234'')) = Inr 13300000000" for cap
    by (simp add: sample_cell_sel sample_bad_molecule)
  have occ3: "occupiedCapacity_molecule (lc_output (sample_cell 15900000000 ''0x123''))
               (output_data (sample_cell 15900000000 ''0x123'')) = Inl RangeError"
    by (simp add: sample_cell_sel sample_odd_molecule)
  note T1 = malformed_prepare_data_aborts [OF nd [of 10200000000] mal [of 10200000000],
      where headerDao = ?hd and AR = ?AR and st = new_unclaimed_totals]
  have a: "holders_step ?hd ?AR new_unclaimed_totals (sample_cell 10200000000 ''0x1234'')
             = Inl InvalidCellShape"
    using T1 by blast
  have b: "scan_cells (holders_step ?hd ?AR) new_unclaimed_totals
        ([?good] @ sample_cell 10200000000 ''0x1234'' # [?good]) = Inl InvalidCellShape"
    using malformed_prepare_data_aborts [OF nd [of 10200000000] mal [of 10200000000],
        where headerDao = ?hd and AR = ?AR and st = ?st1 and ?st0.0 = new_unclaimed_totals
          and pre = "[?good]" and rest = "[?good]"] pre
    by blast
  have c: "unclaimed_step ?hd ?AR new_unclaimed_totals (sample_cell 15900000000 ''0x1234'')
             = Inl InvalidCellShape"
    using malformed_prepare_data_aborts [OF nd [of 15900000000] mal [of 15900000000],
        where headerDao = ?hd and AR = ?AR and st = new_unclaimed_totals and occ = 13300000000]
      occ [of 15900000000]
    by (simp add: sample_cell_sel)
  have d: "unclaimed_step ?hd ?AR new_unclaimed_totals (sample_cell 10200000000 ''0x1234'')
        = Inr (new_unclaimed_totals\<lparr> u_daoDeposit := 10200000000 \<rparr>)"
    using malformed_prepare_data_aborts [OF nd [of 10200000000] mal [of 10200000000],
        where headerDao = ?hd and AR = ?AR and st = new_unclaimed_totals and occ = 13300000000]
      occ [of 10200000000]
    by (simp add: sample_cell_sel new_unclaimed_totals_def)
  have e: "unclaimed_step ?hd ?AR new_unclaimed_totals (sample_cell 15900000000 ''0x123'')
        = Inl RangeError"
    using malformed_prepare_data_aborts [OF nd3 mal3,
        where headerDao = ?hd and AR = ?AR and st = new_unclaimed_totals and e = RangeError]
      occ3
    by blast
  show ?thesis
    by (intro conjI nd ln sample_bad_free a b sample_bad_molecule c d sample_odd_molecule e)
qed

text \<open>
  The claim as stated fails on a malformed item followed by a deposit cell: the scan does
  not go on to the deposit cell and reports no total, whereas the scan of the deposit
  cell alone completes.
\<close>

theorem malformed_prepare_data_counterexample:
  "main_holders sample_tip_dao (\<lambda>bn. sample_deposit_dao)
     [sample_cell 10200000000 ''0x1234'', sample_cell 10200000000 DEPOSIT_DATA]
     = Inl InvalidCellShape
   \<and> main_holders sample_tip_dao (\<lambda>bn. sample_deposit_dao)
     [sample_cell 10200000000 DEPOSIT_DATA]
     = Inr \<lparr> u_daoDeposit = 0, unclaimedDeposit = 100000000, unclaimedPrepare = 0,
              cntDeposit = 1, cntPrepare = 0, unclaimedDepositCapacity = 10200000000,
              u_arCache = [''0x1000'' \<mapsto> 10000000000000000] \<rparr>
   \<and> main_unclaimed sample_tip_dao (\<lambda>bn. sample_deposit_dao)
     [sample_cell 15900000000 ''0x1234'', sample_cell 15900000000 DEPOSIT_DATA]
     = Inl InvalidCellShape
   \<and> main_unclaimed sample_tip_dao (\<lambda>bn. sample_deposit_dao)
     [sample_cell 15900000000 ''0x123'', sample_cell 15900000000 DEPOSIT_DATA]
     = Inl RangeError"
proof (intro conjI)
  show "main_holders sample_tip_dao (\<lambda>bn. sample_deposit_dao)
     [sample_cell 10200000000 ''0x1234'', sample_cell 10200000000 DEPOSIT_DATA]
     = Inl InvalidCellShape"
    by (simp add: main_holders_def sample_tip_AR sample_tip_S sample_bad_holders_step)
  show "main_holders sample_tip_dao (\<lambda>bn. sample_deposit_dao)
     [sample_cell 10200000000 DEPOSIT_DATA]
     = Inr \<lparr> u_daoDeposit = 0, unclaimedDeposit = 100000000, unclaimedPrepare = 0,
              cntDeposit = 1, cntPrepare = 0, unclaimedDepositCapacity = 10200000000,
              u_arCache = [''0x1000'' \<mapsto> 10000000000000000] \<rparr>"
    by (simp add: main_holders_def sample_tip_AR sample_tip_S sample_good_holders_step)
  show "main_unclaimed sample_tip_dao (\<lambda>bn. sample_deposit_dao)
     [sample_cell 15900000000 ''0x1234'', sample_cell 15900000000 DEPOSIT_DATA]
     = Inl InvalidCellShape"
    by (simp add: main_unclaimed_def sample_tip_AR sample_tip_S unclaimed_step_def Let_def
        sample_cell_sel sample_bad_molecule DEPOSIT_DATA_def prepare_branch_def
        parsePrepareBlockNumberHex_def strip0x_def)
  show "main_unclaimed sample_tip_dao (\<lambda>bn. sample_deposit_dao)
     [sample_cell 15900000000 ''0x123'', sample_cell 15900000000 DEPOSIT_DATA]
     = Inl RangeError"
    by (simp add: main_unclaimed_def sample_tip_AR sample_tip_S unclaimed_step_def Let_def
        sample_cell_sel sample_odd_molecule)
qed

subsection \<open>Resuming the checkpointed scan\<close>

























subsection \<open>Seen transactions of the settlement scan\<close>

lemma collect_inputs_props:
  assumes "collect_inputs st objs acc = (st', new)"
    and "distinct acc" and "set acc \<subseteq> seenTx st"
  shows "distinct new \<and> set new \<subseteq> seenTx st' \<and> seenTx st' = seenTx st \<union> set new
       \<and> (\<exists>fresh. new = acc @ fresh \<and> set fresh \<inter> seenTx st = {})
       \<and> processed st' = processed st \<and> totalReward st' = totalReward st"
  using assms
proof (induction objs arbitrary: st acc)
  case Nil
  then show ?case by auto
next
  case (Cons ob objs)
  let ?st1 = "st\<lparr> seenObjects := seenObjects st + 1 \<rparr>"
  let ?st2 = "?st1\<lparr> seenInputObjects := seenInputObjects ?st1 + 1 \<rparr>"
  let ?h = "tx_hash ob"
  let ?st3 = "?st2\<lparr> seenTx := insert ?h (seenTx ?st2) \<rparr>"
  consider (other) "io_type ob \<noteq> ''input''"
    | (seen) "io_type ob = ''input''" "\<not> (?h \<noteq> [] \<and> ?h \<notin> seenTx st)"
    | (fresh) "io_type ob = ''input''" "?h \<noteq> []" "?h \<notin> seenTx st"
    by blast
  then show ?case
  proof cases
    case other
    with Cons.prems(1) have c: "collect_inputs ?st1 objs acc = (st', new)" by (simp add: Let_def)
    from Cons.IH [OF c Cons.prems(2)] Cons.prems(3) show ?thesis by simp
  next
    case seen
    with Cons.prems(1) have c: "collect_inputs ?st2 objs acc = (st', new)" by (simp add: Let_def)
    from Cons.IH [OF c Cons.prems(2)] Cons.prems(3) show ?thesis by simp
  next
    case fresh
    with Cons.prems(1) have c: "collect_inputs ?st3 objs (acc @ [?h]) = (st', new)"
      by (simp add: Let_def)
    have d: "distinct (acc @ [?h])" using Cons.prems(2,3) fresh by auto
    have s: "set (acc @ [?h]) \<subseteq> seenTx ?st3" using Cons.prems(3) by auto
    from Cons.IH [OF c d s]
    have r1: "distinct new" and r2: "set new \<subseteq> seenTx st'"
      and r3: "seenTx st' = insert ?h (seenTx st) \<union> set new"
      and r4: "\<exists>fr. new = (acc @ [?h]) @ fr \<and> set fr \<inter> insert ?h (seenTx st) = {}"
      and r5: "processed st' = processed st" and r6: "totalReward st' = totalReward st"
      by auto
    from r4 obtain fr where f: "new = (acc @ [?h]) @ fr" "set fr \<inter> insert ?h (seenTx st) = {}"
      by blast
    have "new = acc @ (?h # fr)" using f(1) by simp
    moreover have "set (?h # fr) \<inter> seenTx st = {}" using f(2) fresh by auto
    ultimately have e: "\<exists>fresh. new = acc @ fresh \<and> set fresh \<inter> seenTx st = {}" by blast
    have u: "seenTx st' = seenTx st \<union> set new" using r3 f(1) by auto
    from r1 r2 u e r5 r6 show ?thesis by blast
  qed
qed


lemma process_tx_Inr:
  assumes "process_tx rw st h = Inr st'"
  shows "processed st' = processed st @ [h] \<and> seenTx st' = seenTx st
       \<and> totalReward st' = totalReward st + reward_added rw h"
  using assms
  by (auto simp: process_tx_def reward_added_def split: sum.splits option.splits)

lemma mapLimit_fold_Inr:
  assumes "mapLimit_fold (process_tx rw) st xs = Inr st'"
  shows "processed st' = processed st @ xs \<and> seenTx st' = seenTx st
       \<and> totalReward st' = totalReward st + (\<Sum>h\<leftarrow>xs. reward_added rw h)"
  using assms
proof (induction xs arbitrary: st)
  case Nil
  then show ?case by simp
next
  case (Cons x xs)
  from Cons.prems obtain st1 where p: "process_tx rw st x = Inr st1"
    and m: "mapLimit_fold (process_tx rw) st1 xs = Inr st'"
    by (auto split: sum.splits)
  from process_tx_Inr [OF p] Cons.IH [OF m] show ?case by simp
qed

lemma mapLimit_Inr:
  assumes "mapLimit xs limit (process_tx rw) st = Inr st'"
  shows "\<exists>ys. set ys \<subseteq> set xs \<and> (distinct xs \<longrightarrow> distinct ys)
          \<and> processed st' = processed st @ ys \<and> seenTx st' = seenTx st
          \<and> totalReward st' = totalReward st + (\<Sum>h\<leftarrow>ys. reward_added rw h)"
proof (cases "limit = 0")
  case True
  with assms have "st' = st" by (simp add: mapLimit_def)
  then show ?thesis by (intro exI [of _ "[]"]) simp
next
  case False
  with assms have "mapLimit_fold (process_tx rw) st xs = Inr st'" by (simp add: mapLimit_def)
  from mapLimit_fold_Inr [OF this] show ?thesis by (intro exI [of _ xs]) simp
qed

lemma page_preserves_inv:
  assumes inv: "w2_inv rw st"
    and c: "collect_inputs st objs [] = (st1, new)"
    and m: "mapLimit new limit (process_tx rw) st1 = Inr st2"
  shows "w2_inv rw st2"
proof -
  from collect_inputs_props [OF c] have n1: "distinct new" and n2: "seenTx st1 = seenTx st \<union> set new"
    and n3: "set new \<inter> seenTx st = {}" and n4: "processed st1 = processed st"
    and n5: "totalReward st1 = totalReward st"
    by auto
  from mapLimit_Inr [OF m] n1 obtain ys where y1: "set ys \<subseteq> set new" and y2: "distinct ys"
    and y3: "processed st2 = processed st1 @ ys" and y4: "seenTx st2 = seenTx st1"
    and y5: "totalReward st2 = totalReward st1 + (\<Sum>h\<leftarrow>ys. reward_added rw h)"
    by blast
  from inv have i1: "distinct (processed st)" and i2: "set (processed st) \<subseteq> seenTx st"
    and i3: "totalReward st = (\<Sum>h\<leftarrow>processed st. reward_added rw h)"
    by (simp_all add: w2_inv_def)
  have "set ys \<inter> set (processed st) = {}" using y1 n3 i2 by blast
  with i1 y2 have "distinct (processed st2)" by (simp add: y3 n4 Int_commute)
  moreover have "set (processed st2) \<subseteq> seenTx st2" using y1 i2 by (auto simp: y3 y4 n2 n4)
  moreover have "totalReward st2 = (\<Sum>h\<leftarrow>processed st2. reward_added rw h)"
    by (simp add: y5 n5 i3 y3 n4)
  ultimately show ?thesis by (simp add: w2_inv_def)
qed

lemma scan_pages_inv:
  assumes "scan_pages n get limit rw st cursor = Inr (st', fin)" and "w2_inv rw st"
  shows "w2_inv rw st'"
  using assms
proof (induction n arbitrary: st cursor)
  case 0
  then show ?case by simp
next
  case (Suc n)
  let ?res = "get cursor"
  show ?case
  proof (cases "objects ?res = []")
    case True
    with Suc.prems show ?thesis by simp
  next
    case False
    obtain st1 new where c: "collect_inputs st (objects ?res) [] = (st1, new)"
      by (cases "collect_inputs st (objects ?res) []") auto
    from Suc.prems(1) False c obtain st2 where
      m: "mapLimit new limit (process_tx rw) st1 = Inr st2"
      and r: "(if last_cursor ?res = [] \<or> last_cursor ?res = ''0x'' \<or> last_cursor ?res = ''0x0''
              then Inr (st2, True)
              else scan_pages n get limit rw st2 (Some (last_cursor ?res))) = Inr (st', fin)"
      by (auto simp: Let_def split: sum.splits)
    have i2: "w2_inv rw st2" using Suc.prems(2) c m by (rule page_preserves_inv)
    show ?thesis
    proof (cases "last_cursor ?res = [] \<or> last_cursor ?res = ''0x'' \<or> last_cursor ?res = ''0x0''")
      case True
      with r i2 show ?thesis by simp
    next
      case False
      with r have "scan_pages n get limit rw st2 (Some (last_cursor ?res)) = Inr (st', fin)"
        by simp
      from Suc.IH [OF this i2] show ?thesis .
    qed
  qed
qed

text \<open>
  Claim C10. In the settlement-reward scan that keeps the set \<open>seenTx\<close>, whatever pages
  the index delivers and however far the scan has come, the hashes handed to reward
  processing are pairwise distinct and all in the set, and the cumulative total is the
  sum, over these hashes, of what the processing of each adds: no transaction's reward
  is added twice. On every page the hashes collected for processing are distinct and
  none of them was in the set before, so that a hash already seen is skipped.
\<close>

theorem settlement_hash_processed_once:
  assumes "computeWithdraw2Reward n get_transactions CONCURRENCY tx_reward = Inr (st, finished)"
  shows "distinct (processed st)
     \<and> set (processed st) \<subseteq> seenTx st
     \<and> totalReward st = (\<Sum>h\<leftarrow>processed st. reward_added tx_reward h)
     \<and> (collect_inputs st0 objs [] = (st1, inputTxHashes) \<longrightarrow>
          distinct inputTxHashes \<and> set inputTxHashes \<inter> seenTx st0 = {}
          \<and> seenTx st1 = seenTx st0 \<union> set inputTxHashes)"
proof -
  have "w2_inv tx_reward new_w2_state" by (simp add: w2_inv_def new_w2_state_def)
  with assms have "w2_inv tx_reward st"
    unfolding computeWithdraw2Reward_def by (rule scan_pages_inv)
  moreover have "distinct inputTxHashes \<and> set inputTxHashes \<inter> seenTx st0 = {}
          \<and> seenTx st1 = seenTx st0 \<union> set inputTxHashes"
    if "collect_inputs st0 objs [] = (st1, inputTxHashes)"
    using collect_inputs_props [OF that] by auto
  ultimately show ?thesis by (simp add: w2_inv_def)
qed

lemma sample_w2:
  "computeWithdraw2Reward 5 sample_index 60 sample_tx_reward
     = Inr (\<lparr> seenObjects = 7, seenInputObjects = 6, seenTx = {''0xaa'', ''0xbb'', ''0xcc''},
              withdraw2Txs = 2, totalReward = 12, processed = [''0xaa'', ''0xbb'', ''0xcc''] \<rparr>, True)"
  by code_simp

lemma sample_second_page:
  "collect_inputs
     \<lparr> seenObjects = 4, seenInputObjects = 3, seenTx = {''0xaa'', ''0xbb''},
       withdraw2Txs = 1, totalReward = 5, processed = [''0xaa'', ''0xbb''] \<rparr>
     (objects (sample_index (Some ''0x10''))) []
   = (\<lparr> seenObjects = 7, seenInputObjects = 6, seenTx = {''0xaa'', ''0xbb'', ''0xcc''},
        withdraw2Txs = 1, totalReward = 5, processed = [''0xaa'', ''0xbb''] \<rparr>, [''0xcc''])"
  by code_simp

text \<open>
  On the sample index the three hashes are processed once each, for a total of 12; the
  second page contributes only the hash \<open>0xcc\<close>.
\<close>

theorem settlement_hash_processed_once_witness:
  "computeWithdraw2Reward 5 sample_index 60 sample_tx_reward
     = Inr (\<lparr> seenObjects = 7, seenInputObjects = 6, seenTx = {''0xaa'', ''0xbb'', ''0xcc''},
              withdraw2Txs = 2, totalReward = 12, processed = [''0xaa'', ''0xbb'', ''0xcc''] \<rparr>, True)
   \<and> distinct [''0xaa'', ''0xbb'', ''0xcc'']
   \<and> (12::int) = (\<Sum>h\<leftarrow>[''0xaa'', ''0xbb'', ''0xcc'']. reward_added sample_tx_reward h)
   \<and> collect_inputs
        \<lparr> seenObjects = 4, seenInputObjects = 3, seenTx = {''0xaa'', ''0xbb''},
          withdraw2Txs = 1, totalReward = 5, processed = [''0xaa'', ''0xbb''] \<rparr>
        (objects (sample_index (Some ''0x10''))) []
      = (\<lparr> seenObjects = 7, seenInputObjects = 6, seenTx = {''0xaa'', ''0xbb'', ''0xcc''},
           withdraw2Txs = 1, totalReward = 5, processed = [''0xaa'', ''0xbb''] \<rparr>, [''0xcc''])
   \<and> set [''0xcc''] \<inter> {''0xaa'', ''0xbb''} = {}"
proof -
  note T = settlement_hash_processed_once [OF sample_w2,
      where ?st0.0 = "\<lparr> seenObjects = 4, seenInputObjects = 3, seenTx = {''0xaa'', ''0xbb''},
          withdraw2Txs = 1, totalReward = 5, processed = [''0xaa'', ''0xbb''] \<rparr>"
        and objs = "objects (sample_index (Some ''0x10''))"
        and ?st1.0 = "\<lparr> seenObjects = 7, seenInputObjects = 6, seenTx = {''0xaa'', ''0xbb'', ''0xcc''},
           withdraw2Txs = 1, totalReward = 5, processed = [''0xaa'', ''0xbb''] \<rparr>"
        and inputTxHashes = "[''0xcc'']"]
  from T have a: "distinct [''0xaa'', ''0xbb'', ''0xcc'']" by simp
  from T have b: "(12::int) = (\<Sum>h\<leftarrow>[''0xaa'', ''0xbb'', ''0xcc'']. reward_added sample_tx_reward h)"
    by simp
  from T sample_second_page have c: "set [''0xcc''] \<inter> {''0xaa'', ''0xbb''} = {}"
    by simp
  show ?thesis by (intro conjI sample_w2 a b sample_second_page c)
qed

subsection \<open>Fetches of the memoizing resolvers\<close>

lemma memo_run_cached:
  assumes "memo_cache st key \<noteq> None"
  shows "memo_cache (memo_run decode st evs) key \<noteq> None
       \<and> count_list (fetch_log (memo_run decode st evs)) key = count_list (fetch_log st) key"
  using assms
proof (induction evs arbitrary: st)
  case Nil
  then show ?case by simp
next
  case (Cons ev evs)
  show ?case
  proof (cases ev)
    case (Enter k)
    have "memo_cache (fst (memo_enter st k)) key \<noteq> None
        \<and> count_list (fetch_log (fst (memo_enter st k))) key = count_list (fetch_log st) key"
      using Cons.prems by (auto simp: memo_enter_def split: option.splits)
    with Cons.IH [of "fst (memo_enter st k)"] Enter show ?thesis by simp
  next
    case (Resume k r)
    have "memo_cache (fst (memo_resume decode st k r)) key \<noteq> None
        \<and> fetch_log (fst (memo_resume decode st k r)) = fetch_log st"
      using Cons.prems by (auto simp: memo_resume_def Let_def split: sum.splits)
    with Cons.IH [of "fst (memo_resume decode st k r)"] Cons.IH [OF Cons.prems] Resume
    show ?thesis by simp
  qed
qed

text \<open>
  Claim C9, as amended. For each of the two memoizing resolvers (transaction by hash,
  accumulated rate by block height): a call for a key whose value is cached returns it
  and sends no request; a call for a key that is not cached sends a request of its own,
  whether or not a request for the key is already in flight; when a request is answered,
  the value is stored under its key; and once a key is cached, no interleaving of
  further calls sends another request for it. So at most one request per key is sent
  after the key's first fetch has resolved, while callers that arrive before that each
  send a duplicate.
\<close>

theorem resolver_fetch_per_caller:
  "(memo_cache c key = Some v \<longrightarrow> getTx_enter c key = (c, Some v))
   \<and> (memo_cache c key = None \<longrightarrow>
        getTx_enter c key
          = (c\<lparr> in_flight := in_flight c @ [key], fetch_log := fetch_log c @ [key] \<rparr>, None))
   \<and> getTx_resume c key v
          = (c\<lparr> in_flight := remove1 key (in_flight c),
                 memo_cache := (memo_cache c)(key \<mapsto> v) \<rparr>, Inr v)
   \<and> (memo_cache c key \<noteq> None \<longrightarrow>
        count_list (fetch_log (memo_run Inr c evs)) key = count_list (fetch_log c) key)
   \<and> (memo_cache a key = Some ar \<longrightarrow> getARByBlockNumberHex_enter a key = (a, Some ar))
   \<and> (memo_cache a key = None \<longrightarrow>
        getARByBlockNumberHex_enter a key
          = (a\<lparr> in_flight := in_flight a @ [key], fetch_log := fetch_log a @ [key] \<rparr>, None))
   \<and> (parseDaoAR h_dao = Inr ar \<longrightarrow>
        getARByBlockNumberHex_resume a key h_dao
          = (a\<lparr> in_flight := remove1 key (in_flight a),
                 memo_cache := (memo_cache a)(key \<mapsto> ar) \<rparr>, Inr ar))
   \<and> (memo_cache a key \<noteq> None \<longrightarrow>
        count_list (fetch_log (memo_run parseDaoAR a evs')) key = count_list (fetch_log a) key)"
  using memo_run_cached [of c key Inr evs] memo_run_cached [of a key parseDaoAR evs']
  by (auto simp: memo_enter_def memo_resume_def Let_def getTx_enter_def getTx_resume_def
      getARByBlockNumberHex_enter_def getARByBlockNumberHex_resume_def)

text \<open>
  A transaction cache that holds \<open>0xaa\<close>: a call for \<open>0xaa\<close> is served from it, a
  call for \<open>0xbb\<close> sends a request, and further calls send none for \<open>0xaa\<close>; the
  rate resolver stores the rate decoded from the answered header.
\<close>

theorem resolver_fetch_per_caller_witness:
  "memo_cache \<lparr> memo_cache = [''0xaa'' \<mapsto> (5::nat)], in_flight = [], fetch_log = [''0xaa''] \<rparr> ''0xaa''
     = Some 5
   \<and> getTx_enter \<lparr> memo_cache = [''0xaa'' \<mapsto> (5::nat)], in_flight = [], fetch_log = [''0xaa''] \<rparr> ''0xaa''
     = (\<lparr> memo_cache = [''0xaa'' \<mapsto> 5], in_flight = [], fetch_log = [''0xaa''] \<rparr>, Some 5)
   \<and> memo_cache \<lparr> memo_cache = [''0xaa'' \<mapsto> (5::nat)], in_flight = [], fetch_log = [''0xaa''] \<rparr> ''0xbb''
     = None
   \<and> getTx_enter \<lparr> memo_cache = [''0xaa'' \<mapsto> (5::nat)], in_flight = [], fetch_log = [''0xaa''] \<rparr> ''0xbb''
     = (\<lparr> memo_cache = [''0xaa'' \<mapsto> 5], in_flight = [''0xbb''],
          fetch_log = [''0xaa'', ''0xbb''] \<rparr>, None)
   \<and> count_list (fetch_log (memo_run Inr
        \<lparr> memo_cache = [''0xaa'' \<mapsto> (5::nat)], in_flight = [], fetch_log = [''0xaa''] \<rparr>
        [Enter ''0xaa'', Enter ''0xbb'', Enter ''0xaa''])) ''0xaa'' = 1
   \<and> parseDaoAR sample_deposit_dao = Inr 10000000000000000
   \<and> getARByBlockNumberHex_resume
        \<lparr> memo_cache = Map.empty, in_flight = [''0x1000''], fetch_log = [''0x1000''] \<rparr>
        ''0x1000'' sample_deposit_dao
     = (\<lparr> memo_cache = [''0x1000'' \<mapsto> 10000000000000000], in_flight = [],
          fetch_log = [''0x1000''] \<rparr>, Inr 10000000000000000)"
proof -
  let ?c = "\<lparr> memo_cache = [''0xaa'' \<mapsto> (5::nat)], in_flight = [], fetch_log = [''0xaa''] \<rparr>"
  let ?a = "\<lparr> memo_cache = (Map.empty :: string \<rightharpoonup> int), in_flight = [''0x1000''],
             fetch_log = [''0x1000''] \<rparr>"
  have h1: "memo_cache ?c ''0xaa'' = Some 5" by simp
  have h2: "memo_cache ?c ''0xbb'' = None" by simp
  note T1 = resolver_fetch_per_caller [where c = ?c and key = "''0xaa''" and v = 5
      and evs = "[Enter ''0xaa'', Enter ''0xbb'', Enter ''0xaa'']"
      and a = ?a and h_dao = sample_deposit_dao and ar = 10000000000000000]
  note T2 = resolver_fetch_per_caller [where c = ?c and key = "''0xbb''" and a = ?a]
  note T3 = resolver_fetch_per_caller [where a = ?a and key = "''0x1000''"
      and h_dao = sample_deposit_dao and ar = 10000000000000000 and c = ?c]
  from T1 h1 have a: "getTx_enter ?c ''0xaa'' = (?c, Some 5)" by blast
  from T2 h2 have b: "getTx_enter ?c ''0xbb''
     = (\<lparr> memo_cache = [''0xaa'' \<mapsto> 5], in_flight = [''0xbb''],
          fetch_log = [''0xaa'', ''0xbb''] \<rparr>, None)" by simp
  from T1 h1 have c: "count_list (fetch_log (memo_run Inr ?c
        [Enter ''0xaa'', Enter ''0xbb'', Enter ''0xaa''])) ''0xaa'' = 1" by simp
  from T3 sample_deposit_AR have d: "getARByBlockNumberHex_resume ?a ''0x1000'' sample_deposit_dao
     = (\<lparr> memo_cache = [''0x1000'' \<mapsto> 10000000000000000], in_flight = [],
          fetch_log = [''0x1000''] \<rparr>, Inr 10000000000000000)" by simp
  show ?thesis by (intro conjI h1 a h2 b c sample_deposit_AR d)
qed

text \<open>
  The claim as stated fails when a second call for a key enters before the first is
  answered: it finds the cache empty and sends a second request, and two requests for
  the key are in flight.
\<close>

theorem resolver_duplicate_fetch_counterexample:
  "getTx_enter (new_memo :: nat memo) ''0xaa''
     = (\<lparr> memo_cache = Map.empty, in_flight = [''0xaa''], fetch_log = [''0xaa''] \<rparr>, None)
   \<and> getTx_enter \<lparr> memo_cache = (Map.empty :: string \<rightharpoonup> nat), in_flight = [''0xaa''],
                   fetch_log = [''0xaa''] \<rparr> ''0xaa''
     = (\<lparr> memo_cache = Map.empty, in_flight = [''0xaa'', ''0xaa''],
          fetch_log = [''0xaa'', ''0xaa''] \<rparr>, None)
   \<and> count_list (in_flight (memo_run Inr (new_memo :: nat memo)
        [Enter ''0xaa'', Enter ''0xaa''])) ''0xaa'' = 2"
  by (simp add: new_memo_def getTx_enter_def memo_enter_def)

end
